theory Spec2Isabelle
  imports Complex_Main "HOL-Library.Word" "HOL-Library.Multiset"
begin

section \<open>JavaScript strings\<close>

text \<open>
  A JavaScript string is a sequence of UTF-16 code units. The string literals of the
  source are all ASCII and are written with \<open>js\<close>.
\<close>

type_synonym jschar = "16 word"
type_synonym jsstring = "jschar list"

definition js :: "string \<Rightarrow> jsstring" where
  "js s = map (\<lambda>c. of_nat (of_char c)) s"

text \<open>The regular-expression classes \<open>\d\<close>, \<open>[A-Za-z]\<close>, \<open>[1-4]\<close> and \<open>\s\<close>.
  \<open>\s\<close> and \<open>String.prototype.trim\<close> share one set: the WhiteSpace and LineTerminator
  code points of ECMAScript.\<close>

definition isDigit :: "jschar \<Rightarrow> bool" where
  "isDigit c = (48 \<le> c \<and> c \<le> 57)"

definition isDigit14 :: "jschar \<Rightarrow> bool" where
  "isDigit14 c = (49 \<le> c \<and> c \<le> 52)"

definition isAlpha :: "jschar \<Rightarrow> bool" where
  "isAlpha c = ((65 \<le> c \<and> c \<le> 90) \<or> (97 \<le> c \<and> c \<le> 122))"

definition isWhiteSpace :: "jschar \<Rightarrow> bool" where
  "isWhiteSpace c =
     ((9 \<le> c \<and> c \<le> 13) \<or> c = 32 \<or> c = 160 \<or> c = 5760 \<or> (8192 \<le> c \<and> c \<le> 8202)
      \<or> c = 8232 \<or> c = 8233 \<or> c = 8239 \<or> c = 8287 \<or> c = 12288 \<or> c = 65279)"

definition isChar :: "char \<Rightarrow> jschar \<Rightarrow> bool" where
  "isChar k c = (c = of_nat (of_char k))"

text \<open>An anchored pattern made of one character class per position.\<close>

definition matchesSeq :: "(jschar \<Rightarrow> bool) list \<Rightarrow> jsstring \<Rightarrow> bool" where
  "matchesSeq ps s = list_all2 (\<lambda>p c. p c) ps s"

text \<open>\<^verbatim>\<open>/^\d{4}$/\<close>\<close>
definition test_year :: "jsstring \<Rightarrow> bool" where
  "test_year s = matchesSeq [isDigit, isDigit, isDigit, isDigit] s"

text \<open>\<^verbatim>\<open>/^Q[1-4]\s\d{4}$/\<close>\<close>
definition test_quarter :: "jsstring \<Rightarrow> bool" where
  "test_quarter s =
     matchesSeq [isChar CHR ''Q'', isDigit14, isWhiteSpace, isDigit, isDigit, isDigit, isDigit] s"

text \<open>\<^verbatim>\<open>/^[A-Za-z]{3}\s\d{4}$/\<close>\<close>
definition test_month :: "jsstring \<Rightarrow> bool" where
  "test_month s =
     matchesSeq [isAlpha, isAlpha, isAlpha, isWhiteSpace, isDigit, isDigit, isDigit, isDigit] s"

text \<open>\<^verbatim>\<open>/^W\d{1,2}\s\d{4}$/\<close>\<close>
definition test_week :: "jsstring \<Rightarrow> bool" where
  "test_week s =
     (matchesSeq [isChar CHR ''W'', isDigit, isWhiteSpace, isDigit, isDigit, isDigit, isDigit] s
      \<or> matchesSeq [isChar CHR ''W'', isDigit, isDigit, isWhiteSpace,
                     isDigit, isDigit, isDigit, isDigit] s)"

text \<open>\<open>Number.prototype.toString\<close> on an integer (below \<open>10^21\<close> in size).\<close>

function digitsOf :: "nat \<Rightarrow> jsstring" where
  "digitsOf n = (if n < 10 then [of_nat (48 + n)]
                 else digitsOf (n div 10) @ [of_nat (48 + n mod 10)])"
  by pat_completeness auto
termination
  by (relation "measure (\<lambda>n. n)") auto

declare digitsOf.simps [simp del]

definition toStringInt :: "int \<Rightarrow> jsstring" where
  "toStringInt i = (if i < 0 then js ''-'' @ digitsOf (nat (- i)) else digitsOf (nat i))"

text \<open>\<open>Array.prototype.indexOf\<close>: the first index holding the value, or \<open>-1\<close>.\<close>

fun indexOfFrom :: "'a list \<Rightarrow> 'a \<Rightarrow> int \<Rightarrow> int" where
  "indexOfFrom [] x i = -1"
| "indexOfFrom (y # ys) x i = (if y = x then i else indexOfFrom ys x (i + 1))"

definition indexOf :: "'a list \<Rightarrow> 'a \<Rightarrow> int" where
  "indexOf xs x = indexOfFrom xs x 0"

section \<open>JavaScript dates\<close>

text \<open>
  A \<open>Date\<close> is modelled by its local time value: the milliseconds since 1970-01-01T00:00
  local time, for a host time zone with a constant offset from UTC (no daylight-saving
  change between the instants compared), and a valid date (a finite time value). Under
  that assumption the local accessors (\<open>getFullYear\<close>, ...) and the UTC ones
  (\<open>getUTCFullYear\<close>, ...) are the same functions of the respective time value, and the
  difference of two dates is the difference of their local time values. The functions
  are those of ECMA-262, section "Date objects".
\<close>

type_synonym jsdate = int

definition msPerDay :: int where
  "msPerDay = 86400000"

definition Day :: "int \<Rightarrow> int" where
  "Day t = t div msPerDay"

definition TimeWithinDay :: "int \<Rightarrow> int" where
  "TimeWithinDay t = t mod msPerDay"

definition DaysInYear :: "int \<Rightarrow> int" where
  "DaysInYear y = (if y mod 4 \<noteq> 0 then 365 else if y mod 100 \<noteq> 0 then 366
                   else if y mod 400 \<noteq> 0 then 365 else 366)"

definition DayFromYear :: "int \<Rightarrow> int" where
  "DayFromYear y = 365 * (y - 1970) + (y - 1969) div 4 - (y - 1901) div 100 + (y - 1601) div 400"

text \<open>The largest year \<open>y\<close> with \<open>DayFromYear y \<le> d\<close>: an estimate from the mean length of
  a year, then one step of correction.\<close>

definition YearFromDay :: "int \<Rightarrow> int" where
  "YearFromDay d =
     (let y = 1970 + (d * 400) div 146097
      in if d < DayFromYear y then y - 1
         else if DayFromYear (y + 1) \<le> d then y + 1 else y)"

definition YearFromTime :: "int \<Rightarrow> int" where
  "YearFromTime t = YearFromDay (Day t)"

definition InLeapYear :: "int \<Rightarrow> int" where
  "InLeapYear t = (if DaysInYear (YearFromTime t) = 366 then 1 else 0)"

definition DayWithinYear :: "int \<Rightarrow> int" where
  "DayWithinYear t = Day t - DayFromYear (YearFromTime t)"

definition MonthFromTime :: "int \<Rightarrow> int" where
  "MonthFromTime t =
     (let d = DayWithinYear t; l = InLeapYear t
      in if d < 31 then 0
         else if d < 59 + l then 1
         else if d < 90 + l then 2
         else if d < 120 + l then 3
         else if d < 151 + l then 4
         else if d < 181 + l then 5
         else if d < 212 + l then 6
         else if d < 243 + l then 7
         else if d < 273 + l then 8
         else if d < 304 + l then 9
         else if d < 334 + l then 10
         else 11)"

definition DateFromTime :: "int \<Rightarrow> int" where
  "DateFromTime t =
     (let d = DayWithinYear t; l = InLeapYear t; m = MonthFromTime t
      in if m = 0 then d + 1
         else if m = 1 then d - 30
         else if m = 2 then d - 58 - l
         else if m = 3 then d - 89 - l
         else if m = 4 then d - 119 - l
         else if m = 5 then d - 150 - l
         else if m = 6 then d - 180 - l
         else if m = 7 then d - 211 - l
         else if m = 8 then d - 242 - l
         else if m = 9 then d - 272 - l
         else if m = 10 then d - 303 - l
         else d - 333 - l)"

definition WeekDay :: "int \<Rightarrow> int" where
  "WeekDay t = (Day t + 4) mod 7"

text \<open>The number of days of year \<open>y\<close> before its month \<open>m\<close> (\<open>0 \<le> m \<le> 11\<close>).\<close>

definition daysBeforeMonth :: "int \<Rightarrow> int \<Rightarrow> int" where
  "daysBeforeMonth y m =
     (let l = (if DaysInYear y = 366 then 1 else 0)
      in if m = 0 then 0
         else if m = 1 then 31
         else if m = 2 then 59 + l
         else if m = 3 then 90 + l
         else if m = 4 then 120 + l
         else if m = 5 then 151 + l
         else if m = 6 then 181 + l
         else if m = 7 then 212 + l
         else if m = 8 then 243 + l
         else if m = 9 then 273 + l
         else if m = 10 then 304 + l
         else 334 + l)"

definition MakeDay :: "int \<Rightarrow> int \<Rightarrow> int \<Rightarrow> int" where
  "MakeDay year month date =
     (let ym = year + month div 12; mn = month mod 12
      in DayFromYear ym + daysBeforeMonth ym mn + date - 1)"

definition MakeDate :: "int \<Rightarrow> int \<Rightarrow> int" where
  "MakeDate day time = day * msPerDay + time"

text \<open>\<open>new Date(year, monthIndex, day)\<close> and \<open>Date.UTC(year, monthIndex, day)\<close>: a year from
  0 to 99 stands for 1900 + year.\<close>

definition MakeFullYear :: "int \<Rightarrow> int" where
  "MakeFullYear year = (if 0 \<le> year \<and> year \<le> 99 then 1900 + year else year)"

definition newDate :: "int \<Rightarrow> int \<Rightarrow> int \<Rightarrow> jsdate" where
  "newDate year month date = MakeDate (MakeDay (MakeFullYear year) month date) 0"

definition DateUTC :: "int \<Rightarrow> int \<Rightarrow> int \<Rightarrow> jsdate" where
  "DateUTC year month date = MakeDate (MakeDay (MakeFullYear year) month date) 0"

definition getFullYear :: "jsdate \<Rightarrow> int" where
  "getFullYear t = YearFromTime t"

definition getMonth :: "jsdate \<Rightarrow> int" where
  "getMonth t = MonthFromTime t"

definition getDate :: "jsdate \<Rightarrow> int" where
  "getDate t = DateFromTime t"

definition getDay :: "jsdate \<Rightarrow> int" where
  "getDay t = WeekDay t"

definition setUTCDate :: "jsdate \<Rightarrow> int \<Rightarrow> jsdate" where
  "setUTCDate t dt = MakeDate (MakeDay (YearFromTime t) (MonthFromTime t) dt) (TimeWithinDay t)"

text \<open>\<open>today.toLocaleString('en-US', { month: 'short' })\<close>\<close>

definition monthShort :: "int \<Rightarrow> jsstring" where
  "monthShort m =
     (if m = 0 then js ''Jan'' else if m = 1 then js ''Feb'' else if m = 2 then js ''Mar''
      else if m = 3 then js ''Apr'' else if m = 4 then js ''May'' else if m = 5 then js ''Jun''
      else if m = 6 then js ''Jul'' else if m = 7 then js ''Aug'' else if m = 8 then js ''Sep''
      else if m = 9 then js ''Oct'' else if m = 10 then js ''Nov'' else js ''Dec'')"

section \<open>chart-renderer.js: the today marker\<close>

text \<open>\<open>getWeek\<close>: the date is moved to the Thursday of its week, where \<open>dayNum\<close> counts
  Monday as 1 and Sunday as 7 (\<open>d.getUTCDay() || 7\<close>), and the weeks from the start of
  that Thursday's year are counted.\<close>

definition dayNum :: "jsdate \<Rightarrow> int" where
  "dayNum d = (if getDay d = 0 then 7 else getDay d)"

definition getWeek :: "jsdate \<Rightarrow> int" where
  "getWeek date =
     (let d = DateUTC (getFullYear date) (getMonth date) (getDate date);
          d' = setUTCDate d (getDate d + 4 - dayNum d);
          yearStart = DateUTC (getFullYear d') 0 1
      in \<lceil>((of_int (d' - yearStart) / 86400000 + 1) / 7 :: rat)\<rceil>)"

text \<open>The labels looked up in \<open>timeColumns\<close>, one for each granularity.\<close>

definition todayYearStr :: "jsdate \<Rightarrow> jsstring" where
  "todayYearStr today = toStringInt (getFullYear today)"

definition todayQuarterStr :: "jsdate \<Rightarrow> jsstring" where
  "todayQuarterStr today =
     (let month = getMonth today; quarter = month div 3 + 1
      in js ''Q'' @ toStringInt quarter @ js '' '' @ toStringInt (getFullYear today))"

definition todayMonthStr :: "jsdate \<Rightarrow> jsstring" where
  "todayMonthStr today = monthShort (getMonth today) @ js '' '' @ toStringInt (getFullYear today)"

definition todayWeekStr :: "jsdate \<Rightarrow> jsstring" where
  "todayWeekStr today =
     js ''W'' @ toStringInt (getWeek today) @ js '' '' @ toStringInt (getFullYear today)"

text \<open>\<open>findTodayColumnPosition\<close>: \<open>None\<close> is \<open>null\<close>; the percentage is the exact quotient,
  of which the source computes the double-precision rounding.\<close>

definition findTodayColumnPosition :: "jsdate \<Rightarrow> jsstring list \<Rightarrow> (int \<times> rat) option" where
  "findTodayColumnPosition today timeColumns =
     (case timeColumns of
        [] \<Rightarrow> None
      | firstCol # _ \<Rightarrow>
          (let todayYear = getFullYear today in
           if test_year firstCol then
             (let index = indexOf timeColumns (todayYearStr today)
              in if index = -1 then None
                 else
                   (let startOfYear = newDate todayYear 0 1;
                        endOfYear = newDate todayYear 11 31;
                        dayOfYear = of_int (today - startOfYear) / of_int (1000 * 60 * 60 * 24);
                        totalDays = of_int (endOfYear - startOfYear) / of_int (1000 * 60 * 60 * 24);
                        percentage = dayOfYear / totalDays
                    in Some (index, percentage)))
           else if test_quarter firstCol then
             (let month = getMonth today;
                  quarter = month div 3 + 1;
                  index = indexOf timeColumns (todayQuarterStr today)
              in if index = -1 then None
                 else
                   (let quarterStartMonth = (quarter - 1) * 3;
                        startOfQuarter = newDate todayYear quarterStartMonth 1;
                        endOfQuarter = newDate todayYear (quarterStartMonth + 3) 0;
                        dayInQuarter = of_int (today - startOfQuarter) / of_int (1000 * 60 * 60 * 24);
                        totalDays = of_int (endOfQuarter - startOfQuarter) / of_int (1000 * 60 * 60 * 24);
                        percentage = dayInQuarter / totalDays
                    in Some (index, percentage)))
           else if test_month firstCol then
             (let index = indexOf timeColumns (todayMonthStr today)
              in if index = -1 then None
                 else
                   (let endOfMonth = newDate todayYear (getMonth today + 1) 0;
                        dayInMonth = getDate today;
                        totalDays = getDate endOfMonth;
                        percentage = of_int dayInMonth / of_int totalDays
                    in Some (index, percentage)))
           else if test_week firstCol then
             (let index = indexOf timeColumns (todayWeekStr today)
              in if index = -1 then None
                 else
                   (let dayOfWeek = getDay today;
                        percentage = (of_int dayOfWeek + 1 / 2) / 7
                    in Some (index, percentage)))
           else None))"

text \<open>The date \<open>setupChart\<close> passes: \<open>new Date('2025-11-14T12:00:00')\<close>, noon local time.\<close>

definition today_2025_11_14 :: jsdate where
  "today_2025_11_14 = MakeDate (MakeDay 2025 10 14) (12 * 60 * 60 * 1000)"

section \<open>server.js: the completion client\<close>

text \<open>Thrown values. \<open>message\<close> is the \<open>message\<close> property read by the handlers.\<close>

datatype error = Error jsstring | TypeError jsstring | SyntaxError jsstring

fun message :: "error \<Rightarrow> jsstring" where
  "message (Error m) = m"
| "message (TypeError m) = m"
| "message (SyntaxError m) = m"

definition nl :: jsstring where
  "nl = [10]"

text \<open>
  The result of \<open>fetch\<close>: a \<open>Response\<close> with its \<open>ok\<close> flag, its status, its content-type
  header and what \<open>text()\<close> and \<open>json()\<close> give (either may throw). The parsed body of the
  completion service is typed by the shape the code reads: every property may be
  absent (\<open>None\<close> is \<open>undefined\<close>), a present one has the type of the service's schema.
\<close>

record 'b fetchResponse =
  ok :: bool
  status :: nat
  contentType :: "jsstring option"
  bodyText :: "error + jsstring"
  bodyJson :: "error + 'b"

record safetyRating =
  blocked :: bool
  category :: jsstring

record gPart =
  partText :: "jsstring option"

record gContent =
  parts :: "gPart list option"

record gCandidate =
  content :: "gContent option"
  safetyRatings :: "safetyRating list option"

record gResult =
  candidates :: "gCandidate list option"

text \<open>
  A call is represented by the variable parts of its payload: the research text and
  the request's fields. The instruction texts, the schemas and the generation
  settings are constants of each call site.
\<close>

datatype jsval = JUndefined | JNull | JBool bool | JNum rat | JStr jsstring | JObject

datatype payload =
    GanttPayload "jsstring option" jsstring
  | AnalysisPayload jsstring jsval jsval
  | QAPayload jsstring jsstring jsstring jsstring

text \<open>
  The state of the server process: the two module variables, and a log of what it has
  asked of the outside: the payloads sent with \<open>fetch\<close> and the delays given to
  \<open>setTimeout\<close>, in order.
\<close>

record server =
  researchTextCache :: jsstring
  researchFilesCache :: "jsstring list"
  fetches :: "payload list"
  delays :: "int list"

text \<open>
  What the code takes from its libraries and from the network: \<open>localeCompare\<close>,
  \<open>mammoth.convertToHtml\<close> (its \<open>value\<close>, or the error it rejects with),
  \<open>Buffer.toString('utf8')\<close>, \<open>JSON.parse\<close>, and the outcome of the \<open>n\<close>-th
  \<open>fetch\<close> of the process.
\<close>

record 'j env =
  localeCompare :: "jsstring \<Rightarrow> jsstring \<Rightarrow> int"
  convertToHtml :: "8 word list \<Rightarrow> error + jsstring"
  toStringUtf8 :: "8 word list \<Rightarrow> jsstring"
  JSONparse :: "jsstring \<Rightarrow> error + 'j"
  fetch :: "nat \<Rightarrow> error + gResult fetchResponse"

text \<open>Lines 55 to 84, the same in both helpers (104 to 133): the response is checked and
  the parsed result returned, or an error thrown.\<close>

definition checkedResult :: "error + gResult fetchResponse \<Rightarrow> error + gResult" where
  "checkedResult r =
     (case r of
        Inl e \<Rightarrow> Inl e
      | Inr response \<Rightarrow>
          if \<not> ok response then
            (let errorText = (case bodyText response of Inl e \<Rightarrow> js ''Unknown error'' | Inr t \<Rightarrow> t)
             in Inl (Error (js ''API call failed with status: '' @ toStringInt (int (status response))
                            @ js '' - '' @ errorText)))
          else
            (case bodyJson response of
               Inl e \<Rightarrow> Inl e
             | Inr result \<Rightarrow>
                 (case candidates result of
                    None \<Rightarrow> Inl (Error (js ''Invalid response from AI API''))
                  | Some [] \<Rightarrow> Inl (Error (js ''Invalid response from AI API''))
                  | Some (c # _) \<Rightarrow>
                      (case content c of
                         None \<Rightarrow> Inl (Error (js ''Invalid response from AI API''))
                       | Some _ \<Rightarrow>
                           (case safetyRatings c of
                              None \<Rightarrow> Inr result
                            | Some ratings \<Rightarrow>
                                (case find blocked ratings of
                                   None \<Rightarrow> Inr result
                                 | Some blockedRating \<Rightarrow>
                                     Inl (Error (js ''API call blocked due to safety rating: ''
                                                 @ category blockedRating))))))))"

text \<open>\<open>result.candidates[0].content.parts[0].text\<close>: reading \<open>[0]\<close> of a missing \<open>parts\<close>
  or \<open>text\<close> of a missing first part throws a TypeError; a missing \<open>text\<close> is
  \<open>undefined\<close>.\<close>

definition firstPartText :: "gResult \<Rightarrow> error + jsstring option" where
  "firstPartText result =
     (case candidates result of
        Some (c # _) \<Rightarrow>
          (case content c of
             Some ct \<Rightarrow>
               (case parts ct of
                  None \<Rightarrow> Inl (TypeError (js ''Cannot read properties of undefined (reading 0)''))
                | Some [] \<Rightarrow> Inl (TypeError (js ''Cannot read properties of undefined (reading text)''))
                | Some (p # _) \<Rightarrow> Inr (partText p))
           | None \<Rightarrow> Inl (TypeError (js ''Cannot read properties of undefined (reading parts)'')))
      | _ \<Rightarrow> Inl (TypeError (js ''Cannot read properties of undefined (reading content)'')))"

text \<open>The \<open>try\<close> block of \<open>callGeminiForJson\<close>; \<open>JSON.parse(undefined)\<close> parses the string
  \<open>undefined\<close>.\<close>

definition attemptJson :: "'j env \<Rightarrow> error + gResult fetchResponse \<Rightarrow> error + 'j" where
  "attemptJson env r =
     (case checkedResult r of
        Inl e \<Rightarrow> Inl e
      | Inr result \<Rightarrow>
          (case firstPartText result of
             Inl e \<Rightarrow> Inl e
           | Inr extractedJsonText \<Rightarrow>
               JSONparse env (case extractedJsonText of None \<Rightarrow> js ''undefined'' | Some t \<Rightarrow> t)))"

text \<open>The \<open>try\<close> block of \<open>callGeminiForText\<close>.\<close>

definition attemptText :: "error + gResult fetchResponse \<Rightarrow> error + jsstring option" where
  "attemptText r =
     (case checkedResult r of
        Inl e \<Rightarrow> Inl e
      | Inr result \<Rightarrow> firstPartText result)"

text \<open>The \<open>for\<close> loop of \<open>callGeminiForJson\<close>, from the value \<open>attempt\<close> of its counter.\<close>

function callGeminiForJson_loop ::
  "'j env \<Rightarrow> payload \<Rightarrow> int \<Rightarrow> int \<Rightarrow> server \<Rightarrow> server \<times> (error + 'j)" where
  "callGeminiForJson_loop env payload retryCount attempt s =
     (if attempt < retryCount then
        (let r = fetch env (length (fetches s));
             s1 = s\<lparr>fetches := fetches s @ [payload]\<rparr>
         in case attemptJson env r of
              Inr v \<Rightarrow> (s1, Inr v)
            | Inl e \<Rightarrow>
                if attempt \<ge> retryCount - 1 then (s1, Inl e)
                else callGeminiForJson_loop env payload retryCount (attempt + 1)
                       (s1\<lparr>delays := delays s1 @ [1000 * (attempt + 1)]\<rparr>))
      else (s, Inl (Error (js ''All API retry attempts failed.''))))"
  by pat_completeness auto
termination
  by (relation "measure (\<lambda>(env, payload, retryCount, attempt, s). nat (retryCount - attempt))") auto

declare callGeminiForJson_loop.simps [simp del]

definition callGeminiForJson :: "'j env \<Rightarrow> payload \<Rightarrow> int \<Rightarrow> server \<Rightarrow> server \<times> (error + 'j)" where
  "callGeminiForJson env payload retryCount s = callGeminiForJson_loop env payload retryCount 0 s"

function callGeminiForText_loop ::
  "'j env \<Rightarrow> payload \<Rightarrow> int \<Rightarrow> int \<Rightarrow> server \<Rightarrow> server \<times> (error + jsstring option)" where
  "callGeminiForText_loop env payload retryCount attempt s =
     (if attempt < retryCount then
        (let r = fetch env (length (fetches s));
             s1 = s\<lparr>fetches := fetches s @ [payload]\<rparr>
         in case attemptText r of
              Inr v \<Rightarrow> (s1, Inr v)
            | Inl e \<Rightarrow>
                if attempt \<ge> retryCount - 1 then (s1, Inl e)
                else callGeminiForText_loop env payload retryCount (attempt + 1)
                       (s1\<lparr>delays := delays s1 @ [1000 * (attempt + 1)]\<rparr>))
      else (s, Inl (Error (js ''All API retry attempts failed.''))))"
  by pat_completeness auto
termination
  by (relation "measure (\<lambda>(env, payload, retryCount, attempt, s). nat (retryCount - attempt))") auto

declare callGeminiForText_loop.simps [simp del]

definition callGeminiForText ::
  "'j env \<Rightarrow> payload \<Rightarrow> int \<Rightarrow> server \<Rightarrow> server \<times> (error + jsstring option)" where
  "callGeminiForText env payload retryCount s = callGeminiForText_loop env payload retryCount 0 s"

section \<open>server.js: the request handlers\<close>

text \<open>What a handler sends: \<open>res.status(n).json(...)\<close>, or \<open>res.json(...)\<close> with status 200.\<close>

datatype 'j body = ErrorBody jsstring | JsonBody 'j | AnswerBody "jsstring option"

record 'j response =
  statusCode :: nat
  body :: "'j body"

record upfile =
  originalname :: jsstring
  mimetype :: jsstring
  buffer :: "8 word list"

text \<open>\<open>Array.prototype.sort\<close> with a comparator: a stable sort, here by insertion. The
  element \<open>x\<close> goes before the first \<open>y\<close> that the comparator does not put before it.\<close>

fun insertBy :: "('a \<Rightarrow> 'a \<Rightarrow> int) \<Rightarrow> 'a \<Rightarrow> 'a list \<Rightarrow> 'a list" where
  "insertBy cmp x [] = [x]"
| "insertBy cmp x (y # ys) = (if cmp x y \<le> 0 then x # y # ys else y # insertBy cmp x ys)"

definition sortBy :: "('a \<Rightarrow> 'a \<Rightarrow> int) \<Rightarrow> 'a list \<Rightarrow> 'a list" where
  "sortBy cmp xs = foldr (insertBy cmp) xs []"

definition docxMime :: jsstring where
  "docxMime = js ''application/vnd.openxmlformats-officedocument.wordprocessingml.document''"

definition startMarker :: "jsstring \<Rightarrow> jsstring" where
  "startMarker name = nl @ nl @ js ''--- Start of file: '' @ name @ js '' ---'' @ nl"

definition endMarker :: "jsstring \<Rightarrow> jsstring" where
  "endMarker name = nl @ js ''--- End of file: '' @ name @ js '' ---'' @ nl"

text \<open>The \<open>for\<close> loop over the sorted files (lines 159 to 173); the second component is
  the error the \<open>catch\<close> block receives, if any.\<close>

fun extractFiles :: "'j env \<Rightarrow> upfile list \<Rightarrow> server \<Rightarrow> server \<times> error option" where
  "extractFiles env [] s = (s, None)"
| "extractFiles env (file # rest) s =
     (let s1 = s\<lparr>researchTextCache := researchTextCache s @ startMarker (originalname file)\<rparr>;
          s2 = s1\<lparr>researchFilesCache := researchFilesCache s1 @ [originalname file]\<rparr>
      in if mimetype file = docxMime then
           (case convertToHtml env (buffer file) of
              Inl e \<Rightarrow> (s2, Some e)
            | Inr v \<Rightarrow>
                (let s3 = s2\<lparr>researchTextCache := researchTextCache s2 @ v\<rparr>;
                     s4 = s3\<lparr>researchTextCache := researchTextCache s3 @ endMarker (originalname file)\<rparr>
                 in extractFiles env rest s4))
         else
           (let s3 = s2\<lparr>researchTextCache := researchTextCache s2 @ toStringUtf8 env (buffer file)\<rparr>;
                s4 = s3\<lparr>researchTextCache := researchTextCache s3 @ endMarker (originalname file)\<rparr>
            in extractFiles env rest s4))"

text \<open>Lines 152 to 178: the caches are cleared, then the files are sorted and read.
  \<open>req.files\<close> may be absent.\<close>

definition extractUpload :: "'j env \<Rightarrow> upfile list option \<Rightarrow> server \<Rightarrow> server \<times> error option" where
  "extractUpload env files s =
     (let s0 = s\<lparr>researchTextCache := [], researchFilesCache := []\<rparr>
      in case files of
           None \<Rightarrow> (s0, None)
         | Some fs \<Rightarrow>
             extractFiles env
               (sortBy (\<lambda>a b. localeCompare env (originalname a) (originalname b)) fs) s0)"

text \<open>\<open>POST /generate-chart\<close>\<close>

definition generateChart ::
  "'j env \<Rightarrow> jsstring option \<Rightarrow> upfile list option \<Rightarrow> server \<Rightarrow> server \<times> 'j response" where
  "generateChart env userPrompt files s =
     (case extractUpload env files s of
        (s1, Some e) \<Rightarrow>
          (s1, \<lparr>statusCode = 500, body = ErrorBody (js ''Error processing uploaded files.'')\<rparr>)
      | (s1, None) \<Rightarrow>
          (case callGeminiForJson env (GanttPayload userPrompt (researchTextCache s1)) 3 s1 of
             (s2, Inr ganttData) \<Rightarrow> (s2, \<lparr>statusCode = 200, body = JsonBody ganttData\<rparr>)
           | (s2, Inl e) \<Rightarrow>
               (s2, \<lparr>statusCode = 500,
                      body = ErrorBody (js ''Error generating chart data: '' @ message e)\<rparr>)))"

text \<open>JavaScript's truthiness (\<open>!x\<close> is its negation), \<open>typeof x === 'string'\<close> and
  \<open>String.prototype.trim\<close>.\<close>

fun truthy :: "jsval \<Rightarrow> bool" where
  "truthy JUndefined = False"
| "truthy JNull = False"
| "truthy (JBool b) = b"
| "truthy (JNum r) = (r \<noteq> 0)"
| "truthy (JStr s) = (s \<noteq> [])"
| "truthy JObject = True"

fun isString :: "jsval \<Rightarrow> bool" where
  "isString (JStr s) = True"
| "isString _ = False"

definition trim :: "jsstring \<Rightarrow> jsstring" where
  "trim s = rev (dropWhile isWhiteSpace (rev (dropWhile isWhiteSpace s)))"

text \<open>\<open>!x || typeof x !== 'string' || !x.trim()\<close>\<close>

fun notNonEmptyString :: "jsval \<Rightarrow> bool" where
  "notNonEmptyString (JStr s) = (s = [] \<or> trim s = [])"
| "notNonEmptyString v = (\<not> truthy v \<or> \<not> isString v)"

text \<open>\<open>POST /get-task-analysis\<close>\<close>

definition getTaskAnalysis :: "'j env \<Rightarrow> jsval \<Rightarrow> jsval \<Rightarrow> server \<Rightarrow> server \<times> 'j response" where
  "getTaskAnalysis env taskName entity s =
     (if \<not> truthy taskName \<or> \<not> truthy entity then
        (s, \<lparr>statusCode = 400, body = ErrorBody (js ''Missing taskName or entity'')\<rparr>)
      else
        (case callGeminiForJson env (AnalysisPayload (researchTextCache s) entity taskName) 3 s of
           (s1, Inr analysisData) \<Rightarrow> (s1, \<lparr>statusCode = 200, body = JsonBody analysisData\<rparr>)
         | (s1, Inl e) \<Rightarrow>
             (s1, \<lparr>statusCode = 500,
                    body = ErrorBody (js ''Error generating task analysis: '' @ message e)\<rparr>)))"

text \<open>\<open>POST /ask-question\<close>. After the three checks the three values are strings; the last
  case of the pattern match is there for the other shapes, which do not reach it.\<close>

definition askQuestion ::
  "'j env \<Rightarrow> jsval \<Rightarrow> jsval \<Rightarrow> jsval \<Rightarrow> server \<Rightarrow> server \<times> 'j response" where
  "askQuestion env taskName entity question s =
     (if notNonEmptyString question then
        (s, \<lparr>statusCode = 400, body = ErrorBody (js ''Question is required and must be non-empty'')\<rparr>)
      else if notNonEmptyString entity then
        (s, \<lparr>statusCode = 400, body = ErrorBody (js ''Entity is required'')\<rparr>)
      else if notNonEmptyString taskName then
        (s, \<lparr>statusCode = 400, body = ErrorBody (js ''Task name is required'')\<rparr>)
      else
        (case (question, entity, taskName) of
           (JStr q, JStr en, JStr tn) \<Rightarrow>
             if int (length (trim q)) > 1000 then
               (s, \<lparr>statusCode = 400,
                     body = ErrorBody (js ''Question too long (max 1000 characters)'')\<rparr>)
             else
               (case callGeminiForText env (QAPayload (researchTextCache s) tn en q) 3 s of
                  (s1, Inr textResponse) \<Rightarrow> (s1, \<lparr>statusCode = 200, body = AnswerBody textResponse\<rparr>)
                | (s1, Inl e) \<Rightarrow>
                    (s1, \<lparr>statusCode = 500,
                           body = ErrorBody (js ''Error generating answer: '' @ message e)\<rparr>))
         | _ \<Rightarrow> (s, \<lparr>statusCode = 400, body = ErrorBody (js ''Question is required and must be non-empty'')\<rparr>)))"

section \<open>chart-renderer.js: the rows of the chart\<close>

text \<open>The chart document as the renderer reads it. A property that may be absent or
  \<open>null\<close> is an option.\<close>

record bar =
  startCol :: "int option"
  endCol :: "int option"
  color :: "jsstring option"

record row =
  title :: jsstring
  isSwimlane :: bool
  entity :: jsstring
  bar :: "bar option"

record taskIdentifier =
  taskName :: jsstring
  entity :: jsstring

record ganttData =
  title :: "jsstring option"
  timeColumns :: "jsstring list option"
  data :: "row list option"
  legend :: "(jsstring \<times> jsstring) list option"
  error :: "jsstring option"

text \<open>A DOM element: its class, text, attributes, inline styles and children, and the
  task identifiers its click listeners pass to \<open>showAnalysisModal\<close>, one per listener.\<close>

datatype element =
  Element (className: jsstring) (textContent: jsstring) (attributes: "(jsstring \<times> jsstring) list")
    (style: "(jsstring \<times> jsstring) list") (children: "element list")
    (clickListeners: "taskIdentifier list")

definition rowKind :: "bool \<Rightarrow> jsstring" where
  "rowKind sw = (if sw then js ''swimlane'' else js ''task'')"

definition showCol :: "int option \<Rightarrow> jsstring" where
  "showCol c = (case c of None \<Rightarrow> js ''null'' | Some n \<Rightarrow> toStringInt n)"

text \<open>The cells \<open>i = 1, ..., numCols\<close> of a bar area.\<close>

definition gridCells :: "nat \<Rightarrow> element list" where
  "gridCells numCols =
     map (\<lambda>i. Element [] [] [(js ''data-col'', toStringInt (int i))] [] [] []) [1 ..< Suc numCols]"

text \<open>The condition of line 179: \<open>!isSwimlane && row.bar && row.bar.startCol != null\<close>.\<close>

definition hasBar :: "row \<Rightarrow> bool" where
  "hasBar r = (\<not> isSwimlane r \<and> (case row.bar r of None \<Rightarrow> False | Some b \<Rightarrow> startCol b \<noteq> None))"

text \<open>The body of the loop over \<open>ganttData.data\<close>: the label cell and the bar area of one
  row, as they are appended to the grid.\<close>

definition renderRow :: "nat \<Rightarrow> row \<Rightarrow> element \<times> element" where
  "renderRow numCols r =
     (let labelClass = js ''gantt-row-label '' @ rowKind (isSwimlane r);
          areaClass = js ''gantt-bar-area '' @ rowKind (isSwimlane r);
          areaStyle = [(js ''gridColumn'', js ''2 / span '' @ toStringInt (int numCols)),
                       (js ''gridTemplateColumns'',
                        js ''repeat('' @ toStringInt (int numCols) @ js '', 1fr)'')];
          cells = gridCells numCols
      in case row.bar r of
           Some b \<Rightarrow>
             if \<not> isSwimlane r \<and> startCol b \<noteq> None then
               (let barEl = Element (js ''gantt-bar'') []
                              [(js ''data-color'',
                                (case color b of None \<Rightarrow> js ''default''
                                 | Some c \<Rightarrow> if c = [] then js ''default'' else c))]
                              [(js ''gridColumn'', showCol (startCol b) @ js '' / '' @ showCol (endCol b))]
                              [] [];
                    taskIdentifier = \<lparr>taskName = row.title r, entity = row.entity r\<rparr>
                in (Element labelClass (row.title r) [] [(js ''cursor'', js ''pointer'')] []
                      [taskIdentifier],
                    Element areaClass [] [] (areaStyle @ [(js ''cursor'', js ''pointer'')])
                      (cells @ [barEl]) [taskIdentifier]))
             else (Element labelClass (row.title r) [] [] [] [],
                   Element areaClass [] [] areaStyle cells [])
         | None \<Rightarrow> (Element labelClass (row.title r) [] [] [] [],
                     Element areaClass [] [] areaStyle cells []))"

text \<open>\<open>setupChart\<close>, as far as the grid goes: the header label, one header cell per time
  column, then the two cells of each row. Reading \<open>length\<close> of a missing \<open>timeColumns\<close>,
  or iterating a missing \<open>data\<close>, throws.\<close>

definition setupChart :: "ganttData \<Rightarrow> error + element list" where
  "setupChart ganttData =
     (case timeColumns ganttData of
        None \<Rightarrow> Inl (TypeError (js ''Cannot read properties of undefined (reading length)''))
      | Some cols \<Rightarrow>
          (case data ganttData of
             None \<Rightarrow> Inl (TypeError (js ''ganttData.data is not iterable''))
           | Some rows \<Rightarrow>
               Inr (Element (js ''gantt-header gantt-header-label'') [] [] [] [] []
                    # map (\<lambda>colName. Element (js ''gantt-header'') colName [] [] [] []) cols
                    @ concat (map (\<lambda>r. case renderRow (length cols) r of
                                          (labelEl, barAreaEl) \<Rightarrow> [labelEl, barAreaEl]) rows))))"

text \<open>
  \<open>showAnalysisModal\<close> of chart-renderer.js, which a click listener calls with the task
  identifier: the identifier is posted to \<open>/get-task-analysis\<close>, here taken to reach the
  handler and its answer to come back, and the modal body is filled from the answer.
  Step 5 builds the body from the analysis, reading its \<open>taskName\<close>, \<open>status\<close> and lists;
  \<open>populate\<close> stands for it and gives the body, or the TypeError thrown on an analysis
  that lacks what is read. An answer that is not \<open>ok\<close>, and every error thrown, ends in
  the message "Failed to load analysis: ...". The version of the page script differs
  only when the error answer carries no message, and in sanitising the body.
\<close>

datatype 'h modal = ModalBody 'h | ModalError jsstring

definition showAnalysisModal ::
  "('j \<Rightarrow> error + 'h) \<Rightarrow> 'j env \<Rightarrow> taskIdentifier \<Rightarrow> server \<Rightarrow> server \<times> 'h modal" where
  "showAnalysisModal populate env taskIdentifier s =
     (case getTaskAnalysis env (JStr (taskName taskIdentifier))
             (JStr (taskIdentifier.entity taskIdentifier)) s of
        (s1, response) \<Rightarrow>
          (s1,
           if \<not> (200 \<le> statusCode response \<and> statusCode response < 300) then
             (case body response of
                ErrorBody m \<Rightarrow>
                  ModalError (js ''Failed to load analysis: ''
                              @ (if m \<noteq> [] then m else js ''Server error''))
              | _ \<Rightarrow> ModalError (js ''Failed to load analysis: Server error''))
           else
             (case body response of
                JsonBody analysis \<Rightarrow>
                  (case populate analysis of
                     Inr h \<Rightarrow> ModalBody h
                   | Inl e \<Rightarrow> ModalError (js ''Failed to load analysis: '' @ message e))
              | _ \<Rightarrow>
                  ModalError (js ''Failed to load analysis: Cannot read properties of undefined''))))"

section \<open>The page script: handleChartGenerate\<close>

text \<open>\<open>String.prototype.includes\<close>\<close>

fun isPrefixOf :: "'a list \<Rightarrow> 'a list \<Rightarrow> bool" where
  "isPrefixOf [] ys = True"
| "isPrefixOf (x # xs) [] = False"
| "isPrefixOf (x # xs) (y # ys) = (x = y \<and> isPrefixOf xs ys)"

fun includesStr :: "'a list \<Rightarrow> 'a list \<Rightarrow> bool" where
  "includesStr [] p = (p = [])"
| "includesStr (x # xs) p = (isPrefixOf p (x # xs) \<or> includesStr xs p)"

definition invalidStructureMessage :: jsstring where
  "invalidStructureMessage = js ''Invalid chart data structure received from server''"

definition emptyDataMessage :: jsstring where
  "emptyDataMessage = js ''The AI was unable to find any tasks or time columns in the provided documents. Please check your files or try a different prompt.''"

text \<open>The \<open>try\<close> block from the answer of \<open>fetch\<close> on: the chart that is stored and opened,
  or the error thrown. The parsed body is \<open>None\<close> when it is \<open>null\<close>.\<close>

definition chartOfResponse :: "error + ganttData option fetchResponse \<Rightarrow> error + ganttData" where
  "chartOfResponse fetched =
     (case fetched of
        Inl e \<Rightarrow> Inl e
      | Inr response \<Rightarrow>
          if \<not> ok response then
            (let serverError = js ''Server error: '' @ toStringInt (int (status response));
                 isJson = (case contentType response of None \<Rightarrow> False
                           | Some ct \<Rightarrow> ct \<noteq> [] \<and> includesStr ct (js ''application/json''));
                 errorMessage =
                   (if isJson then
                      (case bodyJson response of
                         Inr (Some err) \<Rightarrow>
                           (case error err of
                              Some m \<Rightarrow> if m \<noteq> [] then m else serverError
                            | None \<Rightarrow> serverError)
                       | _ \<Rightarrow> serverError)
                    else
                      (case bodyText response of
                         Inr t \<Rightarrow> if take 200 t \<noteq> [] then take 200 t else serverError
                       | Inl e \<Rightarrow> serverError))
             in Inl (Error errorMessage))
          else
            (case bodyJson response of
               Inl e \<Rightarrow> Inl e
             | Inr None \<Rightarrow> Inl (Error invalidStructureMessage)
             | Inr (Some ganttData) \<Rightarrow>
                 (case timeColumns ganttData of
                    None \<Rightarrow> Inl (Error invalidStructureMessage)
                  | Some cols \<Rightarrow>
                      (case data ganttData of
                         None \<Rightarrow> Inl (Error invalidStructureMessage)
                       | Some rows \<Rightarrow>
                           if length cols = 0 \<or> length rows = 0 then Inl (Error emptyDataMessage)
                           else Inr ganttData))))"

text \<open>What the handler leaves on the page: nothing when the button was disabled, a
  validation message (\<open>displayError\<close>), the message of the \<open>catch\<close> block, or the chart
  opened in a new tab.\<close>

datatype outcome = AlreadyProcessing | DisplayError jsstring | ErrorMessage jsstring | OpenChart ganttData

definition handleChartGenerate ::
  "bool \<Rightarrow> nat \<Rightarrow> jsstring \<Rightarrow> error + ganttData option fetchResponse \<Rightarrow> outcome" where
  "handleChartGenerate disabled numFiles promptValue fetched =
     (if disabled then AlreadyProcessing
      else if numFiles = 0 then
        DisplayError (js ''Error: Please upload at least one research document.'')
      else if trim promptValue = [] then
        DisplayError (js ''Error: Please provide project instructions in the prompt.'')
      else
        (case chartOfResponse fetched of
           Inl e \<Rightarrow> ErrorMessage (js ''Error: '' @ message e)
         | Inr ganttData \<Rightarrow> OpenChart ganttData))"

section \<open>Notions used in the statements\<close>

text \<open>What one file contributes between its markers (lines 164 to 171): the converted
  HTML of a word-processor file, or the error of the conversion, and the decoded bytes
  of any other file.\<close>

definition fileText :: "'j env \<Rightarrow> upfile \<Rightarrow> error + jsstring" where
  "fileText env file =
     (if mimetype file = docxMime then convertToHtml env (buffer file)
      else Inr (toStringUtf8 env (buffer file)))"

text \<open>The complete block of a file whose text was obtained.\<close>

definition block :: "'j env \<Rightarrow> upfile \<Rightarrow> jsstring" where
  "block env file =
     startMarker (originalname file)
     @ (case fileText env file of Inl e \<Rightarrow> [] | Inr v \<Rightarrow> v)
     @ endMarker (originalname file)"

text \<open>
  The ISO week of a date, in the words of the specification: weeks start on Monday, and
  week 1 of a year is the week that contains the year's first Thursday. A week so
  belongs to the year of its Thursday, and its number is the rank of that Thursday among
  the Thursdays of that year. \<open>isoThursday\<close> is the day number of the Thursday of the
  date's week, \<open>isoWeekLabel\<close> the label of the date's week bucket.
\<close>

definition isoThursday :: "jsdate \<Rightarrow> int" where
  "isoThursday t = Day t - (WeekDay t + 6) mod 7 + 3"

definition isoWeekYear :: "jsdate \<Rightarrow> int" where
  "isoWeekYear t = YearFromDay (isoThursday t)"

definition isoWeekNumber :: "jsdate \<Rightarrow> int" where
  "isoWeekNumber t = (isoThursday t - DayFromYear (isoWeekYear t)) div 7 + 1"

definition isoWeekLabel :: "jsdate \<Rightarrow> jsstring" where
  "isoWeekLabel t = js ''W'' @ toStringInt (isoWeekNumber t) @ js '' '' @ toStringInt (isoWeekYear t)"

text \<open>Two files have names that compare equal when the comparator puts neither after
  the other.\<close>

definition sameName :: "'j env \<Rightarrow> upfile \<Rightarrow> upfile \<Rightarrow> bool" where
  "sameName env f g =
     (localeCompare env (originalname f) (originalname g) \<le> 0
      \<and> localeCompare env (originalname g) (originalname f) \<le> 0)"

section \<open>Concrete inputs\<close>

text \<open>A comparator for the examples: the order of the code units.\<close>

fun lexCompare :: "jsstring \<Rightarrow> jsstring \<Rightarrow> int" where
  "lexCompare [] [] = 0"
| "lexCompare [] (y # ys) = -1"
| "lexCompare (x # xs) [] = 1"
| "lexCompare (x # xs) (y # ys) =
     (if x < y then -1 else if y < x then 1 else lexCompare xs ys)"

definition okResult :: gResult where
  "okResult =
     \<lparr>candidates = Some [\<lparr>content = Some \<lparr>parts = Some [\<lparr>partText = Some (js ''{}'')\<rparr>]\<rparr>,
                           safetyRatings = None\<rparr>]\<rparr>"

definition okResponse :: "gResult fetchResponse" where
  "okResponse = \<lparr>ok = True, status = 200, contentType = Some (js ''application/json''),
                  bodyText = Inr [], bodyJson = Inr okResult\<rparr>"

text \<open>An environment in which the first two requests to the completion service fail and
  the later ones succeed, the conversion of an empty buffer fails, bytes are decoded as
  ASCII and the parser returns its input.\<close>

definition testEnv :: "jsstring env" where
  "testEnv =
     \<lparr>localeCompare = lexCompare,
      convertToHtml = (\<lambda>b. if b = [] then Inl (Error (js ''Could not find main document part''))
                            else Inr (map ucast b)),
      toStringUtf8 = map ucast,
      JSONparse = Inr,
      fetch = (\<lambda>n. if n < 2 then Inl (TypeError (js ''fetch failed'')) else Inr okResponse)\<rparr>"

text \<open>An environment in which every request to the completion service fails.\<close>

definition deadEnv :: "jsstring env" where
  "deadEnv = testEnv\<lparr>fetch := (\<lambda>n. Inl (TypeError (js ''fetch failed'')))\<rparr>"

definition emptyServer :: server where
  "emptyServer = \<lparr>researchTextCache = [], researchFilesCache = [], fetches = [], delays = []\<rparr>"

definition usedServer :: server where
  "usedServer = \<lparr>researchTextCache = js ''old corpus'', researchFilesCache = [js ''old.txt''],
                  fetches = [], delays = []\<rparr>"

definition fileA :: upfile where
  "fileA = \<lparr>originalname = js ''a.txt'', mimetype = js ''text/plain'', buffer = [97]\<rparr>"

definition fileA' :: upfile where
  "fileA' = \<lparr>originalname = js ''a.txt'', mimetype = js ''text/plain'', buffer = [120]\<rparr>"

definition fileB :: upfile where
  "fileB = \<lparr>originalname = js ''b.txt'', mimetype = js ''text/plain'', buffer = [98]\<rparr>"

definition brokenDocx :: upfile where
  "brokenDocx = \<lparr>originalname = js ''b.docx'', mimetype = docxMime, buffer = []\<rparr>"

definition testPayload :: payload where
  "testPayload = GanttPayload (Some (js ''plan'')) []"

definition timedRow :: row where
  "timedRow = \<lparr>row.title = js ''Launch'', isSwimlane = False, row.entity = js ''Acme'',
                bar = Some \<lparr>startCol = Some 1, endCol = Some 2, color = Some (js ''priority-red'')\<rparr>\<rparr>"

definition untimedRow :: row where
  "untimedRow = \<lparr>row.title = js ''Audit'', isSwimlane = False, row.entity = js ''Acme'',
                  bar = Some \<lparr>startCol = None, endCol = None, color = Some (js ''priority-red'')\<rparr>\<rparr>"

definition testChart :: ganttData where
  "testChart = \<lparr>title = Some (js ''Plan''), timeColumns = Some [js ''2025'', js ''2026''],
                 data = Some [timedRow, untimedRow], legend = Some [], error = None\<rparr>"

definition chartResponse :: "ganttData \<Rightarrow> ganttData option fetchResponse" where
  "chartResponse g = \<lparr>ok = True, status = 200, contentType = Some (js ''application/json''),
                       bodyText = Inr [], bodyJson = Inr (Some g)\<rparr>"

definition failedResponse :: "jsstring \<Rightarrow> ganttData option fetchResponse" where
  "failedResponse m =
     \<lparr>ok = False, status = 500, contentType = Some (js ''application/json; charset=utf-8''),
      bodyText = Inr [],
      bodyJson = Inr (Some \<lparr>title = None, timeColumns = None, data = None, legend = None,
                             error = Some m\<rparr>)\<rparr>"

section \<open>Lists, strings and dates\<close>

lemma indexOfFrom_absent: "(indexOfFrom xs x i = -1) = (x \<notin> set xs)" if "0 \<le> i"
  using that by (induction xs arbitrary: i) auto

lemma indexOfFrom_lower: "x \<in> set xs \<Longrightarrow> i \<le> indexOfFrom xs x i"
proof (induction xs arbitrary: i)
  case Nil
  then show ?case by simp
next
  case (Cons y ys)
  show ?case
  proof (cases "y = x")
    case True
    then show ?thesis by simp
  next
    case False
    with Cons.prems have "x \<in> set ys" by simp
    from Cons.IH [OF this, of "i + 1"] False show ?thesis by simp
  qed
qed

lemma indexOfFrom_found:
  "x \<in> set xs \<Longrightarrow> indexOfFrom xs x i < i + int (length xs) \<and> xs ! nat (indexOfFrom xs x i - i) = x"
proof (induction xs arbitrary: i)
  case Nil
  then show ?case by simp
next
  case (Cons y ys)
  show ?case
  proof (cases "y = x")
    case True
    then show ?thesis by simp
  next
    case False
    with Cons.prems have mem: "x \<in> set ys" by simp
    define r where "r = indexOfFrom ys x (i + 1)"
    have lo: "i + 1 \<le> r" unfolding r_def by (rule indexOfFrom_lower [OF mem])
    have ih: "r < i + 1 + int (length ys) \<and> ys ! nat (r - (i + 1)) = x"
      unfolding r_def by (rule Cons.IH [OF mem])
    have idx: "nat (r - i) = Suc (nat (r - (i + 1)))" using lo by simp
    have "indexOfFrom (y # ys) x i = r" using False by (simp add: r_def)
    with ih idx show ?thesis by simp
  qed
qed

lemma indexOf_absent: "(indexOf xs x = -1) = (x \<notin> set xs)"
  by (simp add: indexOf_def indexOfFrom_absent)

lemma indexOf_found:
  "x \<in> set xs \<Longrightarrow> 0 \<le> indexOf xs x \<and> indexOf xs x < int (length xs) \<and> xs ! nat (indexOf xs x) = x"
  using indexOfFrom_found [of x xs 0] indexOfFrom_lower [of x xs 0]
  by (simp add: indexOf_def)

lemma not_alpha_digit: "isAlpha c \<Longrightarrow> \<not> isDigit c"
  by (auto simp: isAlpha_def isDigit_def word_le_nat_alt)

lemma quarter_not_year: "test_quarter s \<Longrightarrow> \<not> test_year s"
  by (auto simp: test_quarter_def test_year_def matchesSeq_def dest!: list_all2_lengthD)

lemma month_not_year: "test_month s \<Longrightarrow> \<not> test_year s"
  by (auto simp: test_month_def test_year_def matchesSeq_def dest!: list_all2_lengthD)

lemma month_not_quarter: "test_month s \<Longrightarrow> \<not> test_quarter s"
  by (auto simp: test_month_def test_quarter_def matchesSeq_def dest!: list_all2_lengthD)

lemma week_not_year: "test_week s \<Longrightarrow> \<not> test_year s"
  by (auto simp: test_week_def test_year_def matchesSeq_def dest!: list_all2_lengthD)

lemma week_not_quarter: "test_week s \<Longrightarrow> \<not> test_quarter s"
  by (auto simp: test_week_def test_quarter_def matchesSeq_def isChar_def list_all2_Cons1 dest: list_all2_lengthD)

lemma week_not_month: "test_week s \<Longrightarrow> \<not> test_month s"
  by (auto simp: test_week_def test_month_def matchesSeq_def isChar_def list_all2_Cons1 dest: list_all2_lengthD not_alpha_digit)


lemma div_succ:
  fixes n k :: int
  assumes "0 < k"
  shows "(n + 1) div k = n div k + (if (n + 1) mod k = 0 then 1 else 0)"
proof -
  define q r where "q = n div k" and "r = n mod k"
  have n: "n = k * q + r" and r: "0 \<le> r" "r < k"
    using assms by (simp_all add: q_def r_def)
  show ?thesis
  proof (cases "r + 1 = k")
    case True
    then have "n + 1 = k * (q + 1)" using n by (simp add: algebra_simps)
    then have "(n + 1) div k = q + 1" "(n + 1) mod k = 0" using assms by simp_all
    then show ?thesis by (simp add: q_def)
  next
    case False
    with r have lt: "r + 1 < k" by simp
    have e: "n + 1 = k * q + (r + 1)" using n by simp
    have p: "0 \<le> r + 1" using r by simp
    have "(n + 1) div k = q" by (rule int_div_pos_eq [OF e p lt])
    moreover have "(n + 1) mod k = r + 1" by (rule int_mod_pos_eq [OF e p lt])
    ultimately have "(n + 1) div k = q" "(n + 1) mod k = r + 1" by simp_all
    then show ?thesis using r by (simp add: q_def)
  qed
qed

lemma DaysInYear_cases: "DaysInYear y = 365 \<or> DaysInYear y = 366"
  by (simp add: DaysInYear_def)


text \<open>A year has the days that \<open>DaysInYear\<close> gives it.\<close>

lemma DayFromYear_Suc: "DayFromYear (y + 1) = DayFromYear y + DaysInYear y"
proof -
  have a: "(y + 1 - 1969) div 4 = (y - 1969) div 4 + (if (y - 1968) mod 4 = 0 then 1 else 0)"
    using div_succ [of 4 "y - 1969"] by (simp add: algebra_simps)
  have b: "(y + 1 - 1901) div 100 = (y - 1901) div 100 + (if (y - 1900) mod 100 = 0 then 1 else 0)"
    using div_succ [of 100 "y - 1901"] by (simp add: algebra_simps)
  have c: "(y + 1 - 1601) div 400 = (y - 1601) div 400 + (if (y - 1600) mod 400 = 0 then 1 else 0)"
    using div_succ [of 400 "y - 1601"] by (simp add: algebra_simps)
  have m4: "(y - 1968) mod 4 = y mod 4"
    using mod_diff_right_eq [of y 1968 4] by simp
  have m100: "(y - 1900) mod 100 = y mod 100"
    using mod_diff_right_eq [of y 1900 100] by simp
  have m400: "(y - 1600) mod 400 = y mod 400"
    using mod_diff_right_eq [of y 1600 400] by simp
  have d1: "y mod 400 = 0 \<Longrightarrow> y mod 100 = 0"
    using mod_mod_cancel [of 100 400 y] by simp
  have d2: "y mod 100 = 0 \<Longrightarrow> y mod 4 = 0"
    using mod_mod_cancel [of 4 100 y] by simp
  show ?thesis
    unfolding DayFromYear_def DaysInYear_def a b c m4 m100 m400 using d1 d2 by auto
qed


text \<open>\<open>YearFromDay\<close> is the year of ECMA-262: the largest year that starts on or before
  the day.\<close>

lemma YearFromDay_spec:
  "DayFromYear (YearFromDay d) \<le> d \<and> d < DayFromYear (YearFromDay d + 1)"
proof -
  define q where "q = (d * 400) div 146097"
  have q1: "146097 * q \<le> 400 * d" and q2: "400 * d < 146097 * q + 146097"
    unfolding q_def by linarith+
  define a1 b1 c1 where "a1 = q div 4" and "b1 = (q + 68) div 100" and "c1 = (q + 368) div 400"
  have a1: "4 * a1 \<le> q" unfolding a1_def by linarith
  have b1: "q + 68 < 100 * b1 + 100" unfolding b1_def by linarith
  have c1: "400 * c1 \<le> q + 368" unfolding c1_def by linarith
  define a3 b3 c3 where "a3 = (q + 3) div 4" and "b3 = (q + 71) div 100" and "c3 = (q + 371) div 400"
  have a3: "q + 3 < 4 * a3 + 4" unfolding a3_def by linarith
  have b3: "100 * b3 \<le> q + 71" unfolding b3_def by linarith
  have c3: "q + 371 < 400 * c3 + 400" unfolding c3_def by linarith
  have fm: "DayFromYear (1970 + q - 1) = 365 * q - 365 + a1 - b1 + c1"
    by (simp add: DayFromYear_def a1_def b1_def c1_def algebra_simps)
  have f2: "DayFromYear (1970 + q + 1 + 1) = 365 * q + 730 + a3 - b3 + c3"
    by (simp add: DayFromYear_def a3_def b3_def c3_def algebra_simps)
  have lo: "DayFromYear (1970 + q - 1) \<le> d"
    unfolding fm using q1 a1 b1 c1 by linarith
  have hi: "d < DayFromYear (1970 + q + 1 + 1)"
    unfolding f2 using q2 a3 b3 c3 by linarith
  show ?thesis
    unfolding YearFromDay_def Let_def q_def [symmetric]
    using lo hi by auto
qed







text \<open>In every year, the divisor of the fourth quarter is the time from October 1 to
  the start of December 31, 91 days; the quarter, up to the start of January 1, has 92.\<close>

lemma quarter4_totalDays:
  "newDate y 12 0 - newDate y 9 1 = 91 * msPerDay
   \<and> newDate y 12 1 - newDate y 9 1 = 92 * msPerDay"
  using DayFromYear_Suc [of "MakeFullYear y"] DaysInYear_cases [of "MakeFullYear y"]
  by (auto simp add: newDate_def MakeDate_def MakeDay_def daysBeforeMonth_def Let_def msPerDay_def)

lemma findToday_year:
  "test_year c \<Longrightarrow> findTodayColumnPosition today (c # cs) =
     (if todayYearStr today \<in> set (c # cs)
      then Some (indexOf (c # cs) (todayYearStr today),
                 (of_int (today - newDate (getFullYear today) 0 1) / of_int (1000 * 60 * 60 * 24)) /
                 (of_int (newDate (getFullYear today) 11 31 - newDate (getFullYear today) 0 1)
                   / of_int (1000 * 60 * 60 * 24)))
      else None)"
  unfolding findTodayColumnPosition_def Let_def list.case
  using indexOf_absent [of "c # cs" "todayYearStr today"] by simp

lemma findToday_quarter:
  "test_quarter c \<Longrightarrow> findTodayColumnPosition today (c # cs) =
     (if todayQuarterStr today \<in> set (c # cs)
      then Some (indexOf (c # cs) (todayQuarterStr today),
                 (of_int (today - newDate (getFullYear today) ((getMonth today div 3 + 1 - 1) * 3) 1)
                    / of_int (1000 * 60 * 60 * 24)) /
                 (of_int (newDate (getFullYear today) ((getMonth today div 3 + 1 - 1) * 3 + 3) 0
                          - newDate (getFullYear today) ((getMonth today div 3 + 1 - 1) * 3) 1)
                   / of_int (1000 * 60 * 60 * 24)))
      else None)"
  unfolding findTodayColumnPosition_def Let_def list.case
  using indexOf_absent [of "c # cs" "todayQuarterStr today"] quarter_not_year [of c] by simp

lemma findToday_month:
  "test_month c \<Longrightarrow> findTodayColumnPosition today (c # cs) =
     (if todayMonthStr today \<in> set (c # cs)
      then Some (indexOf (c # cs) (todayMonthStr today),
                 of_int (getDate today)
                   / of_int (getDate (newDate (getFullYear today) (getMonth today + 1) 0)))
      else None)"
  unfolding findTodayColumnPosition_def Let_def list.case
  using indexOf_absent [of "c # cs" "todayMonthStr today"] month_not_year [of c]
    month_not_quarter [of c] by simp

lemma findToday_week:
  "test_week c \<Longrightarrow> findTodayColumnPosition today (c # cs) =
     (if todayWeekStr today \<in> set (c # cs)
      then Some (indexOf (c # cs) (todayWeekStr today), (of_int (getDay today) + 1 / 2) / 7)
      else None)"
  unfolding findTodayColumnPosition_def Let_def list.case
  using indexOf_absent [of "c # cs" "todayWeekStr today"] week_not_year [of c]
    week_not_quarter [of c] week_not_month [of c] by simp

lemma findToday_unknown:
  "\<not> test_year c \<Longrightarrow> \<not> test_quarter c \<Longrightarrow> \<not> test_month c \<Longrightarrow> \<not> test_week c \<Longrightarrow>
     findTodayColumnPosition today (c # cs) = None"
  unfolding findTodayColumnPosition_def Let_def list.case by simp

lemma findToday_index:
  assumes "findTodayColumnPosition today cols = Some (i, p)"
  shows "0 \<le> i \<and> i < int (length cols)"
proof (cases cols)
  case Nil
  with assms show ?thesis by (simp add: findTodayColumnPosition_def)
next
  case (Cons c cs)
  consider (y) "test_year c" | (q) "test_quarter c" | (m) "test_month c" | (w) "test_week c"
    | (u) "\<not> test_year c" "\<not> test_quarter c" "\<not> test_month c" "\<not> test_week c"
    by blast
  then show ?thesis
  proof cases
    case y
    from assms show ?thesis unfolding Cons findToday_year [OF y]
      using indexOf_found [of "todayYearStr today" "c # cs"] by (auto split: if_splits)
  next
    case q
    from assms show ?thesis unfolding Cons findToday_quarter [OF q]
      using indexOf_found [of "todayQuarterStr today" "c # cs"] by (auto split: if_splits)
  next
    case m
    from assms show ?thesis unfolding Cons findToday_month [OF m]
      using indexOf_found [of "todayMonthStr today" "c # cs"] by (auto split: if_splits)
  next
    case w
    from assms show ?thesis unfolding Cons findToday_week [OF w]
      using indexOf_found [of "todayWeekStr today" "c # cs"] by (auto split: if_splits)
  next
    case u
    from assms show ?thesis unfolding Cons findToday_unknown [OF u] by simp
  qed
qed


section \<open>The completion client\<close>

lemmas json_loop_3 =
  callGeminiForJson_loop.simps [where retryCount = 3 and attempt = 0]
  callGeminiForJson_loop.simps [where retryCount = 3 and attempt = 1]
  callGeminiForJson_loop.simps [where retryCount = 3 and attempt = 2]

lemmas text_loop_3 =
  callGeminiForText_loop.simps [where retryCount = 3 and attempt = 0]
  callGeminiForText_loop.simps [where retryCount = 3 and attempt = 1]
  callGeminiForText_loop.simps [where retryCount = 3 and attempt = 2]

lemma json_first:
  "attemptJson env (fetch env (length (fetches s))) = Inr v \<Longrightarrow>
     callGeminiForJson env p 3 s = (s\<lparr>fetches := fetches s @ [p]\<rparr>, Inr v)"
  by (simp add: callGeminiForJson_def json_loop_3 Let_def)

lemma json_second:
  "attemptJson env (fetch env (length (fetches s))) = Inl e \<Longrightarrow>
   attemptJson env (fetch env (Suc (length (fetches s)))) = Inr v \<Longrightarrow>
     callGeminiForJson env p 3 s = (s\<lparr>fetches := fetches s @ [p, p], delays := delays s @ [1000]\<rparr>, Inr v)"
  by (simp add: callGeminiForJson_def json_loop_3 Let_def)

lemma json_third:
  "attemptJson env (fetch env (length (fetches s))) = Inl e \<Longrightarrow>
   attemptJson env (fetch env (Suc (length (fetches s)))) = Inl e' \<Longrightarrow>
     callGeminiForJson env p 3 s =
       (s\<lparr>fetches := fetches s @ [p, p, p], delays := delays s @ [1000, 2000]\<rparr>,
        attemptJson env (fetch env (Suc (Suc (length (fetches s))))))"
  by (simp add: callGeminiForJson_def json_loop_3 Let_def split: sum.splits)

lemma text_first:
  "attemptText (fetch env (length (fetches s))) = Inr v \<Longrightarrow>
     callGeminiForText env p 3 s = (s\<lparr>fetches := fetches s @ [p]\<rparr>, Inr v)"
  by (simp add: callGeminiForText_def text_loop_3 Let_def)

lemma text_second:
  "attemptText (fetch env (length (fetches s))) = Inl e \<Longrightarrow>
   attemptText (fetch env (Suc (length (fetches s)))) = Inr v \<Longrightarrow>
     callGeminiForText env p 3 s = (s\<lparr>fetches := fetches s @ [p, p], delays := delays s @ [1000]\<rparr>, Inr v)"
  by (simp add: callGeminiForText_def text_loop_3 Let_def)

lemma text_third:
  "attemptText (fetch env (length (fetches s))) = Inl e \<Longrightarrow>
   attemptText (fetch env (Suc (length (fetches s)))) = Inl e' \<Longrightarrow>
     callGeminiForText env p 3 s =
       (s\<lparr>fetches := fetches s @ [p, p, p], delays := delays s @ [1000, 2000]\<rparr>,
        attemptText (fetch env (Suc (Suc (length (fetches s))))))"
  by (simp add: callGeminiForText_def text_loop_3 Let_def split: sum.splits)

lemma json_retry:
  "\<exists>n\<in>{1, 2, 3}.
      fetches (fst (callGeminiForJson env p 3 s)) = fetches s @ replicate n p
    \<and> delays (fst (callGeminiForJson env p 3 s)) = delays s @ take (n - 1) [1000, 2000]
    \<and> snd (callGeminiForJson env p 3 s) = attemptJson env (fetch env (length (fetches s) + n - 1))
    \<and> (\<forall>k<n - 1. isl (attemptJson env (fetch env (length (fetches s) + k))))
    \<and> (n < 3 \<longrightarrow> \<not> isl (snd (callGeminiForJson env p 3 s)))
    \<and> researchTextCache (fst (callGeminiForJson env p 3 s)) = researchTextCache s
    \<and> researchFilesCache (fst (callGeminiForJson env p 3 s)) = researchFilesCache s"
proof (cases "attemptJson env (fetch env (length (fetches s)))")
  case (Inr v)
  from json_first [OF Inr, of p] Inr show ?thesis by simp
next
  case e0: (Inl e)
  show ?thesis
  proof (cases "attemptJson env (fetch env (Suc (length (fetches s))))")
    case (Inr v)
    from json_second [OF e0 Inr, of p] e0 Inr show ?thesis by (simp add: numeral_2_eq_2)
  next
    case e1: (Inl e')
    have "\<forall>k<2. isl (attemptJson env (fetch env (length (fetches s) + k)))"
      using e0 e1 by (auto simp: less_Suc_eq numeral_2_eq_2)
    with json_third [OF e0 e1, of p] show ?thesis
      by (simp add: numeral_3_eq_3)
  qed
qed


lemma text_retry:
  "\<exists>n\<in>{1, 2, 3}.
      fetches (fst (callGeminiForText env p 3 s)) = fetches s @ replicate n p
    \<and> delays (fst (callGeminiForText env p 3 s)) = delays s @ take (n - 1) [1000, 2000]
    \<and> snd (callGeminiForText env p 3 s) = attemptText (fetch env (length (fetches s) + n - 1))
    \<and> (\<forall>k<n - 1. isl (attemptText (fetch env (length (fetches s) + k))))
    \<and> (n < 3 \<longrightarrow> \<not> isl (snd (callGeminiForText env p 3 s)))
    \<and> researchTextCache (fst (callGeminiForText env p 3 s)) = researchTextCache s
    \<and> researchFilesCache (fst (callGeminiForText env p 3 s)) = researchFilesCache s"
proof (cases "attemptText (fetch env (length (fetches s)))")
  case (Inr v)
  from text_first [OF Inr, of p] Inr show ?thesis by simp
next
  case e0: (Inl e)
  show ?thesis
  proof (cases "attemptText (fetch env (Suc (length (fetches s))))")
    case (Inr v)
    from text_second [OF e0 Inr, of p] e0 Inr show ?thesis by (simp add: numeral_2_eq_2)
  next
    case e1: (Inl e')
    have "\<forall>k<2. isl (attemptText (fetch env (length (fetches s) + k)))"
      using e0 e1 by (auto simp: less_Suc_eq numeral_2_eq_2)
    with text_third [OF e0 e1, of p] show ?thesis
      by (simp add: numeral_3_eq_3)
  qed
qed

lemma notNonEmptyString_iff: "notNonEmptyString v = (\<forall>q. v = JStr q \<longrightarrow> trim q = [])"
  by (cases v) (auto simp: trim_def)

lemma askQuestion_rejects:
  assumes "(\<forall>q. question = JStr q \<longrightarrow> trim q = [] \<or> 1000 < length (trim q))
           \<or> (\<forall>e. ent = JStr e \<longrightarrow> trim e = [])
           \<or> (\<forall>t. tname = JStr t \<longrightarrow> trim t = [])"
  shows "fst (askQuestion env tname ent question s) = s
         \<and> statusCode (snd (askQuestion env tname ent question s)) = 400
         \<and> body (snd (askQuestion env tname ent question s))
             \<in> {ErrorBody (js ''Question is required and must be non-empty''),
                 ErrorBody (js ''Entity is required''),
                 ErrorBody (js ''Task name is required''),
                 ErrorBody (js ''Question too long (max 1000 characters)'')}"
proof (cases "notNonEmptyString question \<or> notNonEmptyString ent \<or> notNonEmptyString tname")
  case True
  then show ?thesis by (auto simp: askQuestion_def)
next
  case False
  then obtain q en tn where v: "question = JStr q" "ent = JStr en" "tname = JStr tn"
    and ne: "trim q \<noteq> []" "trim en \<noteq> []" "trim tn \<noteq> []"
    by (auto simp: notNonEmptyString_iff)
  with assms have "1000 < length (trim q)" by auto
  with False v show ?thesis by (simp add: askQuestion_def)
qed

lemma getTaskAnalysis_rejects:
  "\<not> truthy tname \<or> \<not> truthy ent \<Longrightarrow>
     getTaskAnalysis env tname ent s =
       (s, \<lparr>statusCode = 400, body = ErrorBody (js ''Missing taskName or entity'')\<rparr>)"
  by (auto simp: getTaskAnalysis_def)

section \<open>Extraction and sorting\<close>

lemma extractFiles_log:
  "fetches (fst (extractFiles env fs s)) = fetches s \<and> delays (fst (extractFiles env fs s)) = delays s"
  by (induction fs arbitrary: s) (auto simp: Let_def split: sum.splits)

lemma extractFiles_ok:
  "\<forall>g\<in>set fs. \<not> isl (fileText env g) \<Longrightarrow>
     extractFiles env fs s =
       (s\<lparr>researchTextCache := researchTextCache s @ concat (map (block env) fs),
          researchFilesCache := researchFilesCache s @ map originalname fs\<rparr>, None)"
proof (induction fs arbitrary: s)
  case Nil
  show ?case by simp
next
  case (Cons f fs)
  from Cons.prems have rest: "\<forall>g\<in>set fs. \<not> isl (fileText env g)" and f: "\<not> isl (fileText env f)"
    by simp_all
  show ?case
  proof (cases "mimetype f = docxMime")
    case True
    with f obtain v where v: "convertToHtml env (buffer f) = Inr v"
      by (cases "convertToHtml env (buffer f)") (auto simp: fileText_def)
    with True show ?thesis
      by (simp add: Let_def Cons.IH [OF rest] block_def fileText_def)
  next
    case False
    then show ?thesis
      by (simp add: Let_def Cons.IH [OF rest] block_def fileText_def)
  qed
qed

lemma extractFiles_first_failure:
  assumes "fileText env f = Inl e"
  shows "extractFiles env (f # post) s =
       (s\<lparr>researchTextCache := researchTextCache s @ startMarker (originalname f),
          researchFilesCache := researchFilesCache s @ [originalname f]\<rparr>, Some e)"
proof -
  from assms have "mimetype f = docxMime" and "convertToHtml env (buffer f) = Inl e"
    by (auto simp: fileText_def split: if_splits)
  then show ?thesis by (simp add: Let_def)
qed

lemma extractFiles_append:
  "\<forall>g\<in>set pre. \<not> isl (fileText env g) \<Longrightarrow>
     extractFiles env (pre @ rest) s =
       extractFiles env rest
         (s\<lparr>researchTextCache := researchTextCache s @ concat (map (block env) pre),
            researchFilesCache := researchFilesCache s @ map originalname pre\<rparr>)"
proof (induction pre arbitrary: s)
  case Nil
  show ?case by simp
next
  case (Cons f fs)
  from Cons.prems have rest: "\<forall>g\<in>set fs. \<not> isl (fileText env g)" and f: "\<not> isl (fileText env f)"
    by simp_all
  show ?case
  proof (cases "mimetype f = docxMime")
    case True
    with f obtain v where v: "convertToHtml env (buffer f) = Inr v"
      by (cases "convertToHtml env (buffer f)") (auto simp: fileText_def)
    with True show ?thesis
      by (simp add: Let_def Cons.IH [OF rest] block_def fileText_def)
  next
    case False
    then show ?thesis
      by (simp add: Let_def Cons.IH [OF rest] block_def fileText_def)
  qed
qed

lemma extractFiles_fail:
  assumes "\<forall>g\<in>set pre. \<not> isl (fileText env g)" and "fileText env f = Inl e"
  shows "extractFiles env (pre @ f # post) s =
       (s\<lparr>researchTextCache :=
            researchTextCache s @ concat (map (block env) pre) @ startMarker (originalname f),
          researchFilesCache := researchFilesCache s @ map originalname pre @ [originalname f]\<rparr>,
        Some e)"
  by (subst extractFiles_append [OF assms(1)], subst extractFiles_first_failure [OF assms(2)]) simp

lemma mset_insertBy: "mset (insertBy cmp x xs) = add_mset x (mset xs)"
  by (induction xs) auto

lemma mset_sortBy: "mset (sortBy cmp xs) = mset xs"
  by (induction xs) (auto simp: sortBy_def mset_insertBy)

lemma set_sortBy: "set (sortBy cmp xs) = set xs"
  using mset_sortBy [of cmp xs] by (metis set_mset_mset)

lemma sorted_insertBy:
  assumes total: "\<And>a b. cmp a b \<le> 0 \<or> cmp b a \<le> 0"
    and trans: "\<And>a b c. cmp a b \<le> 0 \<Longrightarrow> cmp b c \<le> 0 \<Longrightarrow> cmp a c \<le> 0"
  shows "sorted_wrt (\<lambda>a b. cmp a b \<le> 0) xs \<Longrightarrow> sorted_wrt (\<lambda>a b. cmp a b \<le> 0) (insertBy cmp x xs)"
proof (induction xs)
  case Nil
  show ?case by simp
next
  case (Cons y ys)
  show ?case
  proof (cases "cmp x y \<le> 0")
    case True
    with Cons.prems trans show ?thesis by auto
  next
    case False
    with total have "cmp y x \<le> 0" by blast
    moreover have "set (insertBy cmp x ys) = insert x (set ys)"
      using mset_insertBy [of cmp x ys] by (metis set_mset_add_mset_insert set_mset_mset)
    ultimately show ?thesis using False Cons by auto
  qed
qed

lemma sorted_sortBy:
  assumes total: "\<And>a b. cmp a b \<le> 0 \<or> cmp b a \<le> 0"
    and trans: "\<And>a b c. cmp a b \<le> 0 \<Longrightarrow> cmp b c \<le> 0 \<Longrightarrow> cmp a c \<le> 0"
  shows "sorted_wrt (\<lambda>a b. cmp a b \<le> 0) (sortBy cmp xs)"
proof (induction xs)
  case Nil
  show ?case by (simp add: sortBy_def)
next
  case (Cons x xs)
  have "sortBy cmp (x # xs) = insertBy cmp x (sortBy cmp xs)" by (simp add: sortBy_def)
  with sorted_insertBy [OF total trans Cons.IH] show ?case by simp
qed

lemma sorted_wrt_unique:
  assumes "sorted_wrt R xs" and "sorted_wrt R ys" and "mset xs = mset ys"
    and "\<forall>a\<in>set xs. \<forall>b\<in>set xs. R a b \<and> R b a \<longrightarrow> a = b"
  shows "xs = ys"
  using assms
proof (induction xs arbitrary: ys)
  case Nil
  then show ?case by simp
next
  case (Cons x xs)
  from Cons.prems(3) obtain y ys' where ys: "ys = y # ys'" by (cases ys) auto
  have sets: "set (x # xs) = set (y # ys')"
    using Cons.prems(3) unfolding ys by (metis set_mset_mset)
  have "x = y"
  proof (rule ccontr)
    assume neq: "x \<noteq> y"
    with sets have "x \<in> set ys'" and "y \<in> set xs" by auto
    with Cons.prems(1,2) have "R y x" and "R x y" unfolding ys by auto
    moreover have "x \<in> set (x # xs)" and "y \<in> set (x # xs)" using sets by auto
    ultimately have "x = y" using Cons.prems(4) by blast
    with neq show False by contradiction
  qed
  moreover have "xs = ys'"
  proof (rule Cons.IH)
    show "sorted_wrt R xs" using Cons.prems(1) by simp
    show "sorted_wrt R ys'" using Cons.prems(2) unfolding ys by simp
    show "mset xs = mset ys'" using Cons.prems(3) \<open>x = y\<close> unfolding ys by simp
    show "\<forall>a\<in>set xs. \<forall>b\<in>set xs. R a b \<and> R b a \<longrightarrow> a = b" using Cons.prems(4) by simp
  qed
  ultimately show ?case unfolding ys by simp
qed

lemma lexCompare_total: "lexCompare a b \<le> 0 \<or> lexCompare b a \<le> 0"
  by (induction a b rule: lexCompare.induct) auto

lemma lexCompare_trans: "lexCompare a b \<le> 0 \<Longrightarrow> lexCompare b c \<le> 0 \<Longrightarrow> lexCompare a c \<le> 0"
proof (induction a b arbitrary: c rule: lexCompare.induct)
  case 1
  then show ?case by simp
next
  case (2 y ys)
  then show ?case by (cases c) (auto split: if_splits)
next
  case (3 x xs)
  then show ?case by simp
next
  case (4 x xs y ys)
  then show ?case by (cases c) (auto split: if_splits)
qed

section \<open>The today marker: week and quarter columns\<close>







text \<open>
  Claim C7 gives the index 3 and the divisor 92 for the four quarter columns of 2025 and
  the date 2025-11-14. On the code, at noon of that day, which is the date the renderer
  uses, the index is 3 and the offset is \<open>44.5 / 91\<close>: the divisor is the time from
  October 1 to the start of December 31, which is 91 days, one less than the 92 days
  of the quarter.
\<close>

theorem quarter_offset_2025_11_14:
  "findTodayColumnPosition today_2025_11_14
     [js ''Q1 2025'', js ''Q2 2025'', js ''Q3 2025'', js ''Q4 2025''] = Some (3, (44 + 1 / 2) / 91)
   \<and> newDate 2026 0 1 - newDate 2025 9 1 = 92 * msPerDay
   \<and> ((44 + 1 / 2) / 91 :: rat) \<noteq> (44 + 1 / 2) / 92
   \<and> ((44 + 1 / 2) / 91 :: rat) \<noteq> 45 / 92"
  by code_simp

text \<open>
  Claim C8 says that no marker is returned when the date's week bucket is absent from
  the columns. On the code this fails in a week that straddles a year boundary: for
  Monday 2025-12-29, of ISO week 1 of 2026, \<open>getWeek\<close> gives 1 and the label is built with
  the calendar year, "W1 2025". With the columns W1 2025, W2 2025 and W52 2025, which
  do not have the bucket W1 2026 of the date, the code returns the index 0 and the
  offset \<open>1.5 / 7\<close> instead of \<open>null\<close>.
\<close>

theorem week_bucket_year_boundary:
  "test_week (js ''W1 2025'')
   \<and> getWeek (newDate 2025 11 29) = 1
   \<and> getFullYear (newDate 2025 11 29) = 2025
   \<and> todayWeekStr (newDate 2025 11 29) = js ''W1 2025''
   \<and> isoWeekLabel (newDate 2025 11 29) = js ''W1 2026''
   \<and> js ''W1 2026'' \<notin> set [js ''W1 2025'', js ''W2 2025'', js ''W52 2025'']
   \<and> findTodayColumnPosition (newDate 2025 11 29) [js ''W1 2025'', js ''W2 2025'', js ''W52 2025'']
       = Some (0, 3 / 14)"
  by code_simp

text \<open>The other cases in which no position is returned, and the range of the index.\<close>

lemma findToday_null_elsewhere:
  "findTodayColumnPosition today [] = None
   \<and> (\<not> test_year c \<and> \<not> test_quarter c \<and> \<not> test_month c \<and> \<not> test_week c
        \<longrightarrow> findTodayColumnPosition today (c # cs) = None)
   \<and> (test_year c \<and> todayYearStr today \<notin> set (c # cs)
        \<longrightarrow> findTodayColumnPosition today (c # cs) = None)
   \<and> (test_quarter c \<and> todayQuarterStr today \<notin> set (c # cs)
        \<longrightarrow> findTodayColumnPosition today (c # cs) = None)
   \<and> (test_month c \<and> todayMonthStr today \<notin> set (c # cs)
        \<longrightarrow> findTodayColumnPosition today (c # cs) = None)
   \<and> (\<forall>i p. findTodayColumnPosition today cols = Some (i, p) \<longrightarrow> 0 \<le> i \<and> i < int (length cols))"
proof -
  have "findTodayColumnPosition today [] = None"
    by (simp add: findTodayColumnPosition_def)
  moreover have "\<forall>i p. findTodayColumnPosition today cols = Some (i, p)
      \<longrightarrow> 0 \<le> i \<and> i < int (length cols)"
    using findToday_index by blast
  ultimately show ?thesis
    using findToday_unknown [of c today cs] findToday_year [of c today cs]
      findToday_quarter [of c today cs] findToday_month [of c today cs]
    by presburger
qed

section \<open>Retries of the completion client\<close>

text \<open>
  Claim C2. With the retry count 3 that every call site uses, \<open>callGeminiForJson\<close> and
  \<open>callGeminiForText\<close> issue \<open>n\<close> requests with \<open>1 \<le> n \<le> 3\<close>; the delays requested are the
  first \<open>n - 1\<close> of 1000 and 2000 milliseconds, in that order; every attempt before the
  last has failed; the outcome is that of the last attempt, so that after three
  failures the error of the third is what the caller receives; and fewer than three
  attempts are made only when the last one succeeded.
\<close>

theorem completion_retry:
  "(\<exists>n\<in>{1, 2, 3}.
      fetches (fst (callGeminiForJson env p 3 s)) = fetches s @ replicate n p
    \<and> delays (fst (callGeminiForJson env p 3 s)) = delays s @ take (n - 1) [1000, 2000]
    \<and> snd (callGeminiForJson env p 3 s) = attemptJson env (fetch env (length (fetches s) + n - 1))
    \<and> (\<forall>k<n - 1. isl (attemptJson env (fetch env (length (fetches s) + k))))
    \<and> (n < 3 \<longrightarrow> \<not> isl (snd (callGeminiForJson env p 3 s))))
   \<and> (\<exists>n\<in>{1, 2, 3}.
      fetches (fst (callGeminiForText env p 3 s)) = fetches s @ replicate n p
    \<and> delays (fst (callGeminiForText env p 3 s)) = delays s @ take (n - 1) [1000, 2000]
    \<and> snd (callGeminiForText env p 3 s) = attemptText (fetch env (length (fetches s) + n - 1))
    \<and> (\<forall>k<n - 1. isl (attemptText (fetch env (length (fetches s) + k))))
    \<and> (n < 3 \<longrightarrow> \<not> isl (snd (callGeminiForText env p 3 s))))"
proof
  from json_retry [of env p s] show "\<exists>n\<in>{1, 2, 3}.
      fetches (fst (callGeminiForJson env p 3 s)) = fetches s @ replicate n p
    \<and> delays (fst (callGeminiForJson env p 3 s)) = delays s @ take (n - 1) [1000, 2000]
    \<and> snd (callGeminiForJson env p 3 s) = attemptJson env (fetch env (length (fetches s) + n - 1))
    \<and> (\<forall>k<n - 1. isl (attemptJson env (fetch env (length (fetches s) + k))))
    \<and> (n < 3 \<longrightarrow> \<not> isl (snd (callGeminiForJson env p 3 s)))"
    by blast
  from text_retry [of env p s] show "\<exists>n\<in>{1, 2, 3}.
      fetches (fst (callGeminiForText env p 3 s)) = fetches s @ replicate n p
    \<and> delays (fst (callGeminiForText env p 3 s)) = delays s @ take (n - 1) [1000, 2000]
    \<and> snd (callGeminiForText env p 3 s) = attemptText (fetch env (length (fetches s) + n - 1))
    \<and> (\<forall>k<n - 1. isl (attemptText (fetch env (length (fetches s) + k))))
    \<and> (n < 3 \<longrightarrow> \<not> isl (snd (callGeminiForText env p 3 s)))"
    by blast
qed

section \<open>Validation of requests\<close>

text \<open>
  Claim C5. A question request is answered with status 400 and one of four messages,
  and leaves the state of the server (its caches and its log of requests to the
  completion service) as it was, whenever the question is not a string, is empty after
  trimming or is longer than 1000 code units after trimming, or the entity or the task
  name is not a string or is empty after trimming. A task-analysis request whose task
  name or entity is missing or falsy is answered with status 400 and the message
  "Missing taskName or entity", the state unchanged.
\<close>

theorem invalid_requests_rejected:
  "((\<forall>q. question = JStr q \<longrightarrow> trim q = [] \<or> 1000 < length (trim q))
      \<or> (\<forall>e. ent = JStr e \<longrightarrow> trim e = [])
      \<or> (\<forall>t. tname = JStr t \<longrightarrow> trim t = [])
    \<longrightarrow> fst (askQuestion env tname ent question s) = s
        \<and> statusCode (snd (askQuestion env tname ent question s)) = 400
        \<and> body (snd (askQuestion env tname ent question s))
             \<in> {ErrorBody (js ''Question is required and must be non-empty''),
                 ErrorBody (js ''Entity is required''),
                 ErrorBody (js ''Task name is required''),
                 ErrorBody (js ''Question too long (max 1000 characters)'')})
   \<and> (\<not> truthy tname \<or> \<not> truthy ent
    \<longrightarrow> getTaskAnalysis env tname ent s =
          (s, \<lparr>statusCode = 400, body = ErrorBody (js ''Missing taskName or entity'')\<rparr>))"
  using askQuestion_rejects [of question ent tname env s] getTaskAnalysis_rejects [of tname ent env s]
  by blast

theorem invalid_requests_rejected_witness:
  "trim (js ''  '') = []
   \<and> askQuestion testEnv (JStr (js ''Launch'')) (JStr (js ''Acme'')) (JStr (js ''  '')) usedServer =
       (usedServer, \<lparr>statusCode = 400,
                     body = ErrorBody (js ''Question is required and must be non-empty'')\<rparr>)
   \<and> 1000 < length (trim (replicate 1001 97))
   \<and> fst (askQuestion testEnv (JStr (js ''Launch'')) (JStr (js ''Acme'')) (JStr (replicate 1001 97))
            usedServer) = usedServer
   \<and> statusCode (snd (askQuestion testEnv (JStr (js ''Launch'')) (JStr (js ''Acme''))
                        (JStr (replicate 1001 97)) usedServer)) = 400
   \<and> \<not> truthy JUndefined
   \<and> getTaskAnalysis testEnv JUndefined (JStr (js ''Acme'')) usedServer =
       (usedServer, \<lparr>statusCode = 400, body = ErrorBody (js ''Missing taskName or entity'')\<rparr>)"
proof -
  have blank: "trim (js ''  '') = []" by code_simp
  have long: "1000 < length (trim (replicate 1001 97))" by code_simp
  have a: "askQuestion testEnv (JStr (js ''Launch'')) (JStr (js ''Acme'')) (JStr (js ''  '')) usedServer =
       (usedServer, \<lparr>statusCode = 400,
                     body = ErrorBody (js ''Question is required and must be non-empty'')\<rparr>)"
    using blank by (simp add: askQuestion_def)
  from invalid_requests_rejected
         [of "JStr (replicate 1001 97)" "JStr (js ''Acme'')" "JStr (js ''Launch'')" testEnv usedServer]
       invalid_requests_rejected
         [of "JStr (js ''  '')" "JStr (js ''Acme'')" JUndefined testEnv usedServer]
       blank long a
  show ?thesis by simp
qed


section \<open>Failure of the extraction\<close>

lemma first_failing_file:
  assumes "\<exists>f\<in>set fs. isl (fileText env f)"
  shows "\<exists>pre f post e. fs = pre @ f # post \<and> (\<forall>g\<in>set pre. \<not> isl (fileText env g))
           \<and> fileText env f = Inl e"
proof -
  from split_list_first_prop [OF assms]
  obtain pre f post where sp: "fs = pre @ f # post" "isl (fileText env f)"
    "\<forall>g\<in>set pre. \<not> isl (fileText env g)" by blast
  from sp(2) obtain e where "fileText env f = Inl e" by (cases "fileText env f") auto
  with sp show ?thesis by blast
qed

text \<open>
  Claim C1, amended. When the conversion of some uploaded file fails, the request ends
  with status 500 and the message "Error processing uploaded files.", without any
  request to the completion service; the store then holds the complete blocks of the
  files sorted before the first failing file, followed by the start marker of the
  failing file, and the names of those files.
\<close>

theorem extraction_failure_aborts:
  assumes "\<exists>f\<in>set fs. isl (fileText env f)"
  shows "\<exists>pre f post e.
      sortBy (\<lambda>a b. localeCompare env (originalname a) (originalname b)) fs = pre @ f # post
    \<and> (\<forall>g\<in>set pre. \<not> isl (fileText env g)) \<and> fileText env f = Inl e
    \<and> generateChart env prompt (Some fs) s =
        (s\<lparr>researchTextCache := concat (map (block env) pre) @ startMarker (originalname f),
           researchFilesCache := map originalname pre @ [originalname f]\<rparr>,
         \<lparr>statusCode = 500, body = ErrorBody (js ''Error processing uploaded files.'')\<rparr>)"
proof -
  let ?sorted = "sortBy (\<lambda>a b. localeCompare env (originalname a) (originalname b)) fs"
  from assms have "\<exists>f\<in>set ?sorted. isl (fileText env f)" by (simp add: set_sortBy)
  from first_failing_file [OF this]
  obtain pre f post e where sp: "?sorted = pre @ f # post"
    "\<forall>g\<in>set pre. \<not> isl (fileText env g)" "fileText env f = Inl e" by blast
  have "generateChart env prompt (Some fs) s =
        (s\<lparr>researchTextCache := concat (map (block env) pre) @ startMarker (originalname f),
           researchFilesCache := map originalname pre @ [originalname f]\<rparr>,
         \<lparr>statusCode = 500, body = ErrorBody (js ''Error processing uploaded files.'')\<rparr>)"
    unfolding generateChart_def extractUpload_def Let_def option.case sp(1)
      extractFiles_fail [OF sp(2) sp(3)]
    by simp
  with sp show ?thesis by blast
qed

text \<open>
  Claim C1 as stated fails: after an upload of a text file and a word-processor file
  that cannot be converted, the store holds the block of the text file and the start
  marker of the other file.
\<close>

theorem extraction_failure_counterexample:
  "isl (fileText testEnv brokenDocx)
   \<and> snd (generateChart testEnv (Some (js ''plan'')) (Some [brokenDocx, fileA]) usedServer) =
       \<lparr>statusCode = 500, body = ErrorBody (js ''Error processing uploaded files.'')\<rparr>
   \<and> researchTextCache (fst (generateChart testEnv (Some (js ''plan'')) (Some [brokenDocx, fileA])
        usedServer)) =
       startMarker (js ''a.txt'') @ js ''a'' @ endMarker (js ''a.txt'') @ startMarker (js ''b.docx'')
   \<and> researchTextCache (fst (generateChart testEnv (Some (js ''plan'')) (Some [brokenDocx, fileA])
        usedServer)) \<noteq> []
   \<and> researchFilesCache (fst (generateChart testEnv (Some (js ''plan'')) (Some [brokenDocx, fileA])
        usedServer)) = [js ''a.txt'', js ''b.docx'']"
  by code_simp

theorem extraction_failure_aborts_witness:
  "(\<exists>f\<in>set [brokenDocx, fileA]. isl (fileText testEnv f))
   \<and> (\<exists>pre f post e.
      sortBy (\<lambda>a b. localeCompare testEnv (originalname a) (originalname b)) [brokenDocx, fileA]
        = pre @ f # post
    \<and> (\<forall>g\<in>set pre. \<not> isl (fileText testEnv g)) \<and> fileText testEnv f = Inl e
    \<and> generateChart testEnv (Some (js ''plan'')) (Some [brokenDocx, fileA]) usedServer =
        (usedServer\<lparr>researchTextCache := concat (map (block testEnv) pre) @ startMarker (originalname f),
           researchFilesCache := map originalname pre @ [originalname f]\<rparr>,
         \<lparr>statusCode = 500, body = ErrorBody (js ''Error processing uploaded files.'')\<rparr>))
   \<and> generateChart testEnv (Some (js ''plan'')) (Some [brokenDocx, fileA]) usedServer =
       (\<lparr>researchTextCache = block testEnv fileA @ startMarker (js ''b.docx''),
         researchFilesCache = [js ''a.txt'', js ''b.docx''], fetches = [], delays = []\<rparr>,
        \<lparr>statusCode = 500, body = ErrorBody (js ''Error processing uploaded files.'')\<rparr>)"
proof -
  have "isl (fileText testEnv brokenDocx)" by code_simp
  then have h: "\<exists>f\<in>set [brokenDocx, fileA]. isl (fileText testEnv f)" by simp
  have ev: "generateChart testEnv (Some (js ''plan'')) (Some [brokenDocx, fileA]) usedServer =
       (\<lparr>researchTextCache = block testEnv fileA @ startMarker (js ''b.docx''),
         researchFilesCache = [js ''a.txt'', js ''b.docx''], fetches = [], delays = []\<rparr>,
        \<lparr>statusCode = 500, body = ErrorBody (js ''Error processing uploaded files.'')\<rparr>)"
    by code_simp
  from extraction_failure_aborts [OF h, of "Some (js ''plan'')" usedServer] h ev
  show ?thesis by blast
qed

theorem completion_retry_witness:
  "callGeminiForJson testEnv testPayload 3 emptyServer =
     (\<lparr>researchTextCache = [], researchFilesCache = [],
       fetches = [testPayload, testPayload, testPayload], delays = [1000, 2000]\<rparr>, Inr (js ''{}''))
   \<and> isl (attemptJson testEnv (fetch testEnv (length (fetches emptyServer) + 0)))
   \<and> isl (attemptJson testEnv (fetch testEnv (length (fetches emptyServer) + 1)))
   \<and> callGeminiForText deadEnv testPayload 3 emptyServer =
     (\<lparr>researchTextCache = [], researchFilesCache = [],
       fetches = [testPayload, testPayload, testPayload], delays = [1000, 2000]\<rparr>,
      Inl (TypeError (js ''fetch failed'')))
   \<and> snd (callGeminiForText deadEnv testPayload 3 emptyServer)
       = attemptText (fetch deadEnv (length (fetches emptyServer) + 3 - 1))"
proof -
  have j: "callGeminiForJson testEnv testPayload 3 emptyServer =
     (\<lparr>researchTextCache = [], researchFilesCache = [],
       fetches = [testPayload, testPayload, testPayload], delays = [1000, 2000]\<rparr>, Inr (js ''{}''))"
    by code_simp
  have t: "callGeminiForText deadEnv testPayload 3 emptyServer =
     (\<lparr>researchTextCache = [], researchFilesCache = [],
       fetches = [testPayload, testPayload, testPayload], delays = [1000, 2000]\<rparr>,
      Inl (TypeError (js ''fetch failed'')))"
    by code_simp
  have e: "fetches emptyServer = []" by (simp add: emptyServer_def)
  from completion_retry [of testEnv testPayload emptyServer]
  obtain n where n: "n \<in> {1, 2, 3}"
    "fetches (fst (callGeminiForJson testEnv testPayload 3 emptyServer))
       = fetches emptyServer @ replicate n testPayload"
    "\<forall>k<n - 1. isl (attemptJson testEnv (fetch testEnv (length (fetches emptyServer) + k)))"
    by blast
  from n(2) have "length [testPayload, testPayload, testPayload] = n" unfolding j e by simp
  then have n3: "n = 3" by simp
  from completion_retry [of deadEnv testPayload emptyServer]
  obtain m where m: "m \<in> {1, 2, 3}"
    "fetches (fst (callGeminiForText deadEnv testPayload 3 emptyServer))
       = fetches emptyServer @ replicate m testPayload"
    "snd (callGeminiForText deadEnv testPayload 3 emptyServer)
       = attemptText (fetch deadEnv (length (fetches emptyServer) + m - 1))"
    by blast
  from m(2) have "length [testPayload, testPayload, testPayload] = m" unfolding t e by simp
  then have m3: "m = 3" by simp
  from n(3) have failed: "\<And>k. k < 2 \<Longrightarrow>
      isl (attemptJson testEnv (fetch testEnv (length (fetches emptyServer) + k)))"
    unfolding n3 by simp
  from failed [of 0] failed [of 1]
  have "isl (attemptJson testEnv (fetch testEnv (length (fetches emptyServer) + 0)))"
    and "isl (attemptJson testEnv (fetch testEnv (length (fetches emptyServer) + 1)))"
    by simp_all
  with m(3) j t show ?thesis unfolding m3 by simp
qed

section \<open>The store after a request\<close>

lemma extractFiles_shape:
  "\<exists>tx names err. set names \<subseteq> originalname ` set fs
     \<and> (\<forall>s. extractFiles env fs s =
          (s\<lparr>researchTextCache := researchTextCache s @ tx,
             researchFilesCache := researchFilesCache s @ names\<rparr>, err))"
proof (cases "\<exists>f\<in>set fs. isl (fileText env f)")
  case True
  from first_failing_file [OF True]
  obtain pre f post e where sp: "fs = pre @ f # post"
    "\<forall>g\<in>set pre. \<not> isl (fileText env g)" "fileText env f = Inl e" by blast
  have "set (map originalname pre @ [originalname f]) \<subseteq> originalname ` set fs"
    unfolding sp(1) by auto
  with extractFiles_fail [OF sp(2) sp(3), of post] show ?thesis unfolding sp(1) by blast
next
  case False
  then have "\<forall>g\<in>set fs. \<not> isl (fileText env g)" by blast
  from extractFiles_ok [OF this] have "\<forall>s. extractFiles env fs s =
       (s\<lparr>researchTextCache := researchTextCache s @ concat (map (block env) fs),
          researchFilesCache := researchFilesCache s @ map originalname fs\<rparr>, None)"
    by blast
  moreover have "set (map originalname fs) \<subseteq> originalname ` set fs" by simp
  ultimately show ?thesis by blast
qed

lemma extractUpload_shape:
  "\<exists>tx names err. set names \<subseteq> originalname ` (case files of None \<Rightarrow> {} | Some fs \<Rightarrow> set fs)
     \<and> (\<forall>s. extractUpload env files s =
          (s\<lparr>researchTextCache := tx, researchFilesCache := names\<rparr>, err))"
proof (cases files)
  case None
  have "\<forall>s. extractUpload env None s = (s\<lparr>researchTextCache := [], researchFilesCache := []\<rparr>, None)"
    by (simp add: extractUpload_def)
  then show ?thesis unfolding None
    by (intro exI [of _ "[]"] exI [of _ None]) simp
next
  case (Some fs)
  let ?sorted = "sortBy (\<lambda>a b. localeCompare env (originalname a) (originalname b)) fs"
  from extractFiles_shape [of ?sorted env]
  obtain tx names err where sh: "set names \<subseteq> originalname ` set ?sorted"
    "\<forall>s. extractFiles env ?sorted s =
          (s\<lparr>researchTextCache := researchTextCache s @ tx,
             researchFilesCache := researchFilesCache s @ names\<rparr>, err)" by blast
  have "\<forall>s. extractUpload env (Some fs) s =
          (s\<lparr>researchTextCache := tx, researchFilesCache := names\<rparr>, err)"
    by (simp add: extractUpload_def sh(2))
  with sh(1) show ?thesis unfolding Some by (auto simp: set_sortBy)
qed

lemma callGeminiForJson_caches:
  "researchTextCache (fst (callGeminiForJson env p 3 s)) = researchTextCache s
   \<and> researchFilesCache (fst (callGeminiForJson env p 3 s)) = researchFilesCache s"
  using json_retry [of env p s] by blast

lemma generateChart_caches:
  "researchTextCache (fst (generateChart env prompt files s))
     = researchTextCache (fst (extractUpload env files s))
   \<and> researchFilesCache (fst (generateChart env prompt files s))
     = researchFilesCache (fst (extractUpload env files s))"
proof (cases "extractUpload env files s")
  case (Pair s1 err)
  show ?thesis
  proof (cases err)
    case None
    obtain s2 r where c: "callGeminiForJson env (GanttPayload prompt (researchTextCache s1)) 3 s1 = (s2, r)"
      by (cases "callGeminiForJson env (GanttPayload prompt (researchTextCache s1)) 3 s1")
    from callGeminiForJson_caches [of env "GanttPayload prompt (researchTextCache s1)" s1]
    have "researchTextCache s2 = researchTextCache s1 \<and> researchFilesCache s2 = researchFilesCache s1"
      unfolding c by simp
    with Pair None c show ?thesis by (cases r) (simp_all add: generateChart_def)
  next
    case (Some e)
    with Pair show ?thesis by (simp add: generateChart_def)
  qed
qed

text \<open>
  Claim C10. The handler of \<open>/generate-chart\<close> clears the two caches before it reads any
  file: the extraction from any state is the extraction from that state with empty
  caches. After the request, whether it failed in the extraction or not, the caches are
  the same whatever the state was before, and the names stored are names of files of
  the request.
\<close>

theorem store_replaced_by_request:
  "extractUpload env files s
     = extractUpload env files (s\<lparr>researchTextCache := [], researchFilesCache := []\<rparr>)
   \<and> researchTextCache (fst (generateChart env prompt files s))
     = researchTextCache (fst (generateChart env prompt files s'))
   \<and> researchFilesCache (fst (generateChart env prompt files s))
     = researchFilesCache (fst (generateChart env prompt files s'))
   \<and> set (researchFilesCache (fst (generateChart env prompt files s)))
       \<subseteq> originalname ` (case files of None \<Rightarrow> {} | Some fs \<Rightarrow> set fs)"
proof -
  from extractUpload_shape [of files env]
  obtain tx names err where sh:
    "set names \<subseteq> originalname ` (case files of None \<Rightarrow> {} | Some fs \<Rightarrow> set fs)"
    "\<forall>s. extractUpload env files s = (s\<lparr>researchTextCache := tx, researchFilesCache := names\<rparr>, err)"
    by blast
  have "extractUpload env files s
     = extractUpload env files (s\<lparr>researchTextCache := [], researchFilesCache := []\<rparr>)"
    by (simp add: extractUpload_def)
  with sh show ?thesis by (simp add: generateChart_caches)
qed

theorem store_replaced_by_request_witness:
  "researchTextCache (fst (generateChart testEnv (Some (js ''plan'')) (Some [fileB]) usedServer))
     = researchTextCache (fst (generateChart testEnv (Some (js ''plan'')) (Some [fileB]) emptyServer))
   \<and> researchTextCache (fst (generateChart testEnv (Some (js ''plan'')) (Some [fileB]) usedServer))
     = block testEnv fileB
   \<and> researchFilesCache (fst (generateChart testEnv (Some (js ''plan'')) (Some [fileB]) usedServer))
     = [js ''b.txt'']
   \<and> researchTextCache (fst (generateChart testEnv (Some (js ''plan'')) (Some [brokenDocx]) usedServer))
     = startMarker (js ''b.docx'')
   \<and> researchTextCache (fst (generateChart testEnv (Some (js ''plan'')) None usedServer)) = []"
proof -
  have a: "researchTextCache (fst (generateChart testEnv (Some (js ''plan'')) (Some [fileB]) usedServer))
     = block testEnv fileB" by code_simp
  have b: "researchFilesCache (fst (generateChart testEnv (Some (js ''plan'')) (Some [fileB]) usedServer))
     = [js ''b.txt'']" by code_simp
  have c: "researchTextCache (fst (generateChart testEnv (Some (js ''plan'')) (Some [brokenDocx]) usedServer))
     = startMarker (js ''b.docx'')" by code_simp
  have d: "researchTextCache (fst (generateChart testEnv (Some (js ''plan'')) None usedServer)) = []"
    by code_simp
  from store_replaced_by_request [of testEnv "Some [fileB]" usedServer "Some (js ''plan'')" emptyServer]
    a b c d
  show ?thesis by simp
qed

section \<open>Order of the upload\<close>

lemma filter_insertBy:
  assumes "\<And>y. P x \<Longrightarrow> P y \<Longrightarrow> cmp x y \<le> 0"
  shows "filter P (insertBy cmp x ys) = (if P x then x # filter P ys else filter P ys)"
proof (induction ys)
  case Nil
  show ?case by simp
next
  case (Cons y ys)
  show ?case
  proof (cases "cmp x y \<le> 0")
    case True
    then show ?thesis by simp
  next
    case False
    with assms have "\<not> (P x \<and> P y)" by blast
    with False Cons.IH show ?thesis by auto
  qed
qed

lemma sortBy_stable:
  assumes trans: "\<forall>a b c. cmp a b \<le> 0 \<longrightarrow> cmp b c \<le> 0 \<longrightarrow> cmp a c \<le> 0"
  shows "filter (\<lambda>g. cmp f g \<le> 0 \<and> cmp g f \<le> 0) (sortBy cmp fs)
           = filter (\<lambda>g. cmp f g \<le> 0 \<and> cmp g f \<le> 0) fs"
proof (induction fs)
  case Nil
  show ?case by (simp add: sortBy_def)
next
  case (Cons x xs)
  have s: "sortBy cmp (x # xs) = insertBy cmp x (sortBy cmp xs)" by (simp add: sortBy_def)
  have "filter (\<lambda>g. cmp f g \<le> 0 \<and> cmp g f \<le> 0) (insertBy cmp x (sortBy cmp xs))
          = (if cmp f x \<le> 0 \<and> cmp x f \<le> 0
             then x # filter (\<lambda>g. cmp f g \<le> 0 \<and> cmp g f \<le> 0) (sortBy cmp xs)
             else filter (\<lambda>g. cmp f g \<le> 0 \<and> cmp g f \<le> 0) (sortBy cmp xs))"
    by (rule filter_insertBy) (use trans in blast)
  with Cons.IH show ?case unfolding s by simp
qed

lemma generateChart_corpus_ok:
  assumes "\<forall>g\<in>set fs. \<not> isl (fileText env g)"
  shows "researchTextCache (fst (generateChart env prompt (Some fs) s))
           = concat (map (block env)
               (sortBy (\<lambda>a b. localeCompare env (originalname a) (originalname b)) fs))
         \<and> researchFilesCache (fst (generateChart env prompt (Some fs) s))
           = map originalname
               (sortBy (\<lambda>a b. localeCompare env (originalname a) (originalname b)) fs)"
proof -
  let ?sorted = "sortBy (\<lambda>a b. localeCompare env (originalname a) (originalname b)) fs"
  from assms have "\<forall>g\<in>set ?sorted. \<not> isl (fileText env g)" by (simp add: set_sortBy)
  from extractFiles_ok [OF this]
  have "extractUpload env (Some fs) s =
          (s\<lparr>researchTextCache := concat (map (block env) ?sorted),
             researchFilesCache := map originalname ?sorted\<rparr>, None)"
    by (simp add: extractUpload_def)
  then show ?thesis by (simp add: generateChart_caches)
qed

text \<open>
  Claim C3, amended. The files are sorted by name with a stable sort under the
  comparator, taken to be total and transitive: the sorted list is in the order of the
  comparator, and the files whose names compare equal to a given name keep the order of
  the upload. When every file is read, the corpus is the concatenation of the blocks in
  the sorted order. If no two different files of the upload have names that compare
  equal, every reordering of the upload gives the same corpus, the same list of names
  and the same response.
\<close>

theorem corpus_order_independent:
  assumes total: "\<forall>a b. localeCompare env a b \<le> 0 \<or> localeCompare env b a \<le> 0"
    and trans: "\<forall>a b c. localeCompare env a b \<le> 0 \<and> localeCompare env b c \<le> 0
                  \<longrightarrow> localeCompare env a c \<le> 0"
  shows "((\<forall>f\<in>set fs. \<forall>g\<in>set fs. sameName env f g \<longrightarrow> f = g) \<and> mset fs' = mset fs
           \<longrightarrow> generateChart env prompt (Some fs') s = generateChart env prompt (Some fs) s
               \<and> researchTextCache (fst (generateChart env prompt (Some fs') s))
                   = researchTextCache (fst (generateChart env prompt (Some fs) s)))
       \<and> sorted_wrt (\<lambda>a b. localeCompare env (originalname a) (originalname b) \<le> 0)
            (sortBy (\<lambda>a b. localeCompare env (originalname a) (originalname b)) fs)
       \<and> (\<forall>f. filter (sameName env f)
                  (sortBy (\<lambda>a b. localeCompare env (originalname a) (originalname b)) fs)
                = filter (sameName env f) fs)
       \<and> ((\<forall>g\<in>set fs. \<not> isl (fileText env g))
           \<longrightarrow> researchTextCache (fst (generateChart env prompt (Some fs) s))
                 = concat (map (block env)
                     (sortBy (\<lambda>a b. localeCompare env (originalname a) (originalname b)) fs))
               \<and> researchFilesCache (fst (generateChart env prompt (Some fs) s))
                 = map originalname
                     (sortBy (\<lambda>a b. localeCompare env (originalname a) (originalname b)) fs))"
proof -
  let ?cmp = "\<lambda>a b. localeCompare env (originalname a) (originalname b)"
  have t: "\<And>a b. ?cmp a b \<le> 0 \<or> ?cmp b a \<le> 0" using total by blast
  have tr: "\<And>a b c. ?cmp a b \<le> 0 \<Longrightarrow> ?cmp b c \<le> 0 \<Longrightarrow> ?cmp a c \<le> 0" using trans by blast
  have srt: "\<And>xs. sorted_wrt (\<lambda>a b. ?cmp a b \<le> 0) (sortBy ?cmp xs)"
    by (rule sorted_sortBy [OF t tr])
  have one: "generateChart env prompt (Some fs') s = generateChart env prompt (Some fs) s
               \<and> researchTextCache (fst (generateChart env prompt (Some fs') s))
                   = researchTextCache (fst (generateChart env prompt (Some fs) s))"
    if names: "\<forall>f\<in>set fs. \<forall>g\<in>set fs. sameName env f g \<longrightarrow> f = g" and perm: "mset fs' = mset fs"
  proof -
    have "sortBy ?cmp fs = sortBy ?cmp fs'"
    proof (rule sorted_wrt_unique)
      show "sorted_wrt (\<lambda>a b. ?cmp a b \<le> 0) (sortBy ?cmp fs)" by (rule srt)
      show "sorted_wrt (\<lambda>a b. ?cmp a b \<le> 0) (sortBy ?cmp fs')" by (rule srt)
      show "mset (sortBy ?cmp fs) = mset (sortBy ?cmp fs')" using perm by (simp add: mset_sortBy)
      show "\<forall>a\<in>set (sortBy ?cmp fs). \<forall>b\<in>set (sortBy ?cmp fs).
              ?cmp a b \<le> 0 \<and> ?cmp b a \<le> 0 \<longrightarrow> a = b"
        using names by (simp add: set_sortBy sameName_def)
    qed
    then have "generateChart env prompt (Some fs') s = generateChart env prompt (Some fs) s"
      by (simp add: generateChart_def extractUpload_def)
    then show ?thesis by simp
  qed
  have stable: "\<forall>f. filter (sameName env f) (sortBy ?cmp fs) = filter (sameName env f) fs"
  proof
    fix f
    have tr': "\<forall>a b c. ?cmp a b \<le> 0 \<longrightarrow> ?cmp b c \<le> 0 \<longrightarrow> ?cmp a c \<le> 0"
      using trans by blast
    from sortBy_stable [where cmp = ?cmp and f = f and fs = fs, OF tr']
    show "filter (sameName env f) (sortBy ?cmp fs) = filter (sameName env f) fs"
      unfolding sameName_def by simp
  qed
  from one srt [of fs] stable generateChart_corpus_ok [of fs env prompt s]
  show ?thesis by blast
qed

theorem corpus_order_independent_witness:
  "mset [fileB, fileA] = mset [fileA, fileB]
   \<and> generateChart testEnv (Some (js ''plan'')) (Some [fileB, fileA]) emptyServer
       = generateChart testEnv (Some (js ''plan'')) (Some [fileA, fileB]) emptyServer
   \<and> researchTextCache (fst (generateChart testEnv (Some (js ''plan'')) (Some [fileB, fileA])
        emptyServer)) = block testEnv fileA @ block testEnv fileB
   \<and> sameName testEnv fileA fileA'
   \<and> filter (sameName testEnv fileA)
        (sortBy (\<lambda>a b. localeCompare testEnv (originalname a) (originalname b))
           [fileB, fileA', fileA]) = [fileA', fileA]
   \<and> researchTextCache (fst (generateChart testEnv (Some (js ''plan''))
        (Some [fileB, fileA', fileA]) emptyServer))
       = block testEnv fileA' @ block testEnv fileA @ block testEnv fileB"
proof -
  have total: "\<forall>a b. localeCompare testEnv a b \<le> 0 \<or> localeCompare testEnv b a \<le> 0"
    using lexCompare_total by (simp add: testEnv_def)
  have trans: "\<forall>a b c. localeCompare testEnv a b \<le> 0 \<and> localeCompare testEnv b c \<le> 0
          \<longrightarrow> localeCompare testEnv a c \<le> 0"
    using lexCompare_trans by (auto simp: testEnv_def)
  have ab: "lexCompare (js ''a.txt'') (js ''b.txt'') = -1" by code_simp
  have ba: "lexCompare (js ''b.txt'') (js ''a.txt'') = 1" by code_simp
  have names: "\<forall>f\<in>set [fileA, fileB]. \<forall>g\<in>set [fileA, fileB]. sameName testEnv f g \<longrightarrow> f = g"
    using ab ba by (simp add: sameName_def testEnv_def fileA_def fileB_def)
  have perm: "mset [fileB, fileA] = mset [fileA, fileB]" by simp
  have ev: "researchTextCache (fst (generateChart testEnv (Some (js ''plan'')) (Some [fileB, fileA])
        emptyServer)) = block testEnv fileA @ block testEnv fileB"
    by code_simp
  have sn: "sameName testEnv fileA fileA'" by code_simp
  have fl: "filter (sameName testEnv fileA) [fileB, fileA', fileA] = [fileA', fileA]"
    by code_simp
  have ok: "\<forall>g\<in>set [fileB, fileA', fileA]. \<not> isl (fileText testEnv g)" by code_simp
  have srt: "sortBy (\<lambda>a b. localeCompare testEnv (originalname a) (originalname b))
           [fileB, fileA', fileA] = [fileA', fileA, fileB]"
    by code_simp
  note main = corpus_order_independent [OF total trans]
  from main [of "[fileA, fileB]" "[fileB, fileA]" "Some (js ''plan'')" emptyServer] names perm
  have one: "generateChart testEnv (Some (js ''plan'')) (Some [fileB, fileA]) emptyServer
       = generateChart testEnv (Some (js ''plan'')) (Some [fileA, fileB]) emptyServer"
    by blast
  from main [of "[fileB, fileA', fileA]" "[]" "Some (js ''plan'')" emptyServer]
  have st: "filter (sameName testEnv fileA)
        (sortBy (\<lambda>a b. localeCompare testEnv (originalname a) (originalname b))
           [fileB, fileA', fileA]) = filter (sameName testEnv fileA) [fileB, fileA', fileA]"
    by blast
  from main [of "[fileB, fileA', fileA]" "[]" "Some (js ''plan'')" emptyServer] ok
  have co: "researchTextCache (fst (generateChart testEnv (Some (js ''plan''))
        (Some [fileB, fileA', fileA]) emptyServer))
       = concat (map (block testEnv)
           (sortBy (\<lambda>a b. localeCompare testEnv (originalname a) (originalname b))
              [fileB, fileA', fileA]))"
    by blast
  from perm one ev sn st fl co srt show ?thesis by simp
qed

text \<open>
  Claim C3 as stated fails for two files of the same name and different contents: the
  sort keeps them in the order of the upload, and the corpus has their blocks in that
  order.
\<close>

theorem corpus_order_counterexample:
  "originalname fileA = originalname fileA'
   \<and> researchTextCache (fst (generateChart testEnv (Some (js ''plan'')) (Some [fileA, fileA'])
        emptyServer)) = block testEnv fileA @ block testEnv fileA'
   \<and> researchTextCache (fst (generateChart testEnv (Some (js ''plan'')) (Some [fileA', fileA])
        emptyServer)) = block testEnv fileA' @ block testEnv fileA
   \<and> researchTextCache (fst (generateChart testEnv (Some (js ''plan'')) (Some [fileA, fileA'])
        emptyServer))
     \<noteq> researchTextCache (fst (generateChart testEnv (Some (js ''plan'')) (Some [fileA', fileA])
        emptyServer))"
  by code_simp

section \<open>Click listeners of the rows\<close>

lemma renderRow_listeners:
  "clickListeners (fst (renderRow n r))
     = (if hasBar r then [\<lparr>taskName = row.title r, entity = row.entity r\<rparr>] else [])
   \<and> clickListeners (snd (renderRow n r))
     = (if hasBar r then [\<lparr>taskName = row.title r, entity = row.entity r\<rparr>] else [])
   \<and> textContent (fst (renderRow n r)) = row.title r"
  by (cases "row.bar r") (auto simp: renderRow_def hasBar_def Let_def)

lemma renderRow_children:
  "(\<not> hasBar r \<longrightarrow> children (snd (renderRow n r)) = gridCells n)
   \<and> (hasBar r \<longrightarrow> (\<exists>barEl. children (snd (renderRow n r)) = gridCells n @ [barEl]
                          \<and> className barEl = js ''gantt-bar''))"
  by (cases "row.bar r") (auto simp: renderRow_def hasBar_def Let_def)

lemma showAnalysisModal_calls:
  assumes "taskName ti \<noteq> []" and "taskIdentifier.entity ti \<noteq> []"
  shows "showAnalysisModal populate env ti s =
     (case callGeminiForJson env
             (AnalysisPayload (researchTextCache s) (JStr (taskIdentifier.entity ti))
                (JStr (taskName ti))) 3 s of
        (s1, Inr analysis) \<Rightarrow>
          (s1, case populate analysis of
                 Inr h \<Rightarrow> ModalBody h
               | Inl e \<Rightarrow> ModalError (js ''Failed to load analysis: '' @ message e))
      | (s1, Inl e) \<Rightarrow>
          (s1, ModalError (js ''Failed to load analysis: ''
                           @ js ''Error generating task analysis: '' @ message e)))"
proof -
  obtain s1 r where c: "callGeminiForJson env
             (AnalysisPayload (researchTextCache s) (JStr (taskIdentifier.entity ti))
                (JStr (taskName ti))) 3 s = (s1, r)"
    by (cases "callGeminiForJson env
             (AnalysisPayload (researchTextCache s) (JStr (taskIdentifier.entity ti))
                (JStr (taskName ti))) 3 s")
  have ne: "js ''Error generating task analysis: '' \<noteq> []" by (simp add: js_def)
  show ?thesis
  proof (cases r)
    case (Inl e)
    with assms c ne show ?thesis
      by (simp add: showAnalysisModal_def getTaskAnalysis_def)
  next
    case (Inr analysis)
    with assms c show ?thesis
      by (simp add: showAnalysisModal_def getTaskAnalysis_def split: sum.splits)
  qed
qed

lemma showAnalysisModal_rejected:
  assumes "taskName ti = [] \<or> taskIdentifier.entity ti = []"
  shows "showAnalysisModal populate env ti s =
           (s, ModalError (js ''Failed to load analysis: '' @ js ''Missing taskName or entity''))"
proof -
  have "js ''Missing taskName or entity'' \<noteq> []" by (simp add: js_def)
  with assms show ?thesis
    by (auto simp: showAnalysisModal_def getTaskAnalysis_def)
qed

text \<open>
  Claim C4, amended. For a chart with time columns and rows, every row is rendered as a
  label cell and a bar area in the grid. Exactly when the row is a task whose bar has a
  start column, the bar area holds a bar element after its cells, and both cells carry
  one click listener, which calls \<open>showAnalysisModal\<close> with the identity made of the
  row's title and entity; a swimlane, a task without a bar and a task whose bar has a
  null start column get no bar element and no listener. Called with that identity,
  \<open>showAnalysisModal\<close> posts it to \<open>/get-task-analysis\<close>: when title and entity are not
  empty, the completion for that identity and the stored research is requested, and the
  modal shows the body built from the analysis returned, or "Failed to load analysis:"
  with the error of the last attempt or of the building; when the title or the entity
  is empty, the request is answered with status 400 and the modal shows "Failed to load
  analysis: Missing taskName or entity".
\<close>

theorem rows_with_bar_clickable:
  assumes "timeColumns g = Some cols" and "data g = Some rws" and "r \<in> set rws"
  shows "\<exists>els. setupChart g = Inr els
     \<and> fst (renderRow (length cols) r) \<in> set els
     \<and> snd (renderRow (length cols) r) \<in> set els
     \<and> textContent (fst (renderRow (length cols) r)) = row.title r
     \<and> clickListeners (fst (renderRow (length cols) r))
         = (if hasBar r then [\<lparr>taskName = row.title r, entity = row.entity r\<rparr>] else [])
     \<and> clickListeners (snd (renderRow (length cols) r))
         = (if hasBar r then [\<lparr>taskName = row.title r, entity = row.entity r\<rparr>] else [])
     \<and> (\<not> hasBar r \<longrightarrow> children (snd (renderRow (length cols) r)) = gridCells (length cols))
     \<and> (hasBar r \<longrightarrow>
          (\<exists>barEl. children (snd (renderRow (length cols) r)) = gridCells (length cols) @ [barEl]
                   \<and> className barEl = js ''gantt-bar''))
     \<and> (row.title r \<noteq> [] \<and> row.entity r \<noteq> [] \<longrightarrow>
          showAnalysisModal populate env \<lparr>taskName = row.title r, entity = row.entity r\<rparr> s =
            (case callGeminiForJson env
                    (AnalysisPayload (researchTextCache s) (JStr (row.entity r)) (JStr (row.title r)))
                    3 s of
               (s1, Inr analysis) \<Rightarrow>
                 (s1, case populate analysis of
                        Inr h \<Rightarrow> ModalBody h
                      | Inl e \<Rightarrow> ModalError (js ''Failed to load analysis: '' @ message e))
             | (s1, Inl e) \<Rightarrow>
                 (s1, ModalError (js ''Failed to load analysis: ''
                                  @ js ''Error generating task analysis: '' @ message e))))
     \<and> (row.title r = [] \<or> row.entity r = [] \<longrightarrow>
          showAnalysisModal populate env \<lparr>taskName = row.title r, entity = row.entity r\<rparr> s =
            (s, ModalError (js ''Failed to load analysis: '' @ js ''Missing taskName or entity'')))"
proof -
  let ?cells = "\<lambda>r. case renderRow (length cols) r of (labelEl, barAreaEl) \<Rightarrow> [labelEl, barAreaEl]"
  let ?ti = "\<lparr>taskName = row.title r, entity = row.entity r\<rparr>"
  have "fst (renderRow (length cols) r) \<in> set (?cells r)"
    and "snd (renderRow (length cols) r) \<in> set (?cells r)"
    by (simp_all add: case_prod_beta)
  with assms(3) have mem: "fst (renderRow (length cols) r) \<in> set (concat (map ?cells rws))"
    "snd (renderRow (length cols) r) \<in> set (concat (map ?cells rws))"
    by auto
  have grid: "\<exists>els. setupChart g = Inr els
     \<and> fst (renderRow (length cols) r) \<in> set els
     \<and> snd (renderRow (length cols) r) \<in> set els"
    using assms(1,2) mem by (simp add: setupChart_def)
  have call: "row.title r \<noteq> [] \<and> row.entity r \<noteq> [] \<longrightarrow>
          showAnalysisModal populate env ?ti s =
            (case callGeminiForJson env
                    (AnalysisPayload (researchTextCache s) (JStr (row.entity r)) (JStr (row.title r)))
                    3 s of
               (s1, Inr analysis) \<Rightarrow>
                 (s1, case populate analysis of
                        Inr h \<Rightarrow> ModalBody h
                      | Inl e \<Rightarrow> ModalError (js ''Failed to load analysis: '' @ message e))
             | (s1, Inl e) \<Rightarrow>
                 (s1, ModalError (js ''Failed to load analysis: ''
                                  @ js ''Error generating task analysis: '' @ message e)))"
    using showAnalysisModal_calls [of ?ti populate env s] by simp
  have rej: "row.title r = [] \<or> row.entity r = [] \<longrightarrow>
          showAnalysisModal populate env ?ti s =
            (s, ModalError (js ''Failed to load analysis: '' @ js ''Missing taskName or entity''))"
    using showAnalysisModal_rejected [of ?ti populate env s] by simp
  from grid renderRow_listeners [of "length cols" r] renderRow_children [of r "length cols"] call rej
  show ?thesis by blast
qed

theorem rows_with_bar_clickable_witness:
  "timeColumns testChart = Some [js ''2025'', js ''2026'']
   \<and> data testChart = Some [timedRow, untimedRow]
   \<and> timedRow \<in> set [timedRow, untimedRow]
   \<and> hasBar timedRow
   \<and> row.title timedRow \<noteq> [] \<and> row.entity timedRow \<noteq> []
   \<and> clickListeners (fst (renderRow (length [js ''2025'', js ''2026'']) timedRow))
       = [\<lparr>taskName = js ''Launch'', entity = js ''Acme''\<rparr>]
   \<and> clickListeners (snd (renderRow (length [js ''2025'', js ''2026'']) timedRow))
       = [\<lparr>taskName = js ''Launch'', entity = js ''Acme''\<rparr>]
   \<and> showAnalysisModal Inr testEnv \<lparr>taskName = js ''Launch'', entity = js ''Acme''\<rparr> emptyServer
       = (\<lparr>researchTextCache = [], researchFilesCache = [],
           fetches = replicate 3 (AnalysisPayload [] (JStr (js ''Acme'')) (JStr (js ''Launch''))),
           delays = [1000, 2000]\<rparr>, ModalBody (js ''{}''))
   \<and> \<not> hasBar untimedRow
   \<and> children (snd (renderRow (length [js ''2025'', js ''2026'']) untimedRow))
       = gridCells (length [js ''2025'', js ''2026''])"
proof -
  have c: "timeColumns testChart = Some [js ''2025'', js ''2026'']" by (simp add: testChart_def)
  have d: "data testChart = Some [timedRow, untimedRow]" by (simp add: testChart_def)
  have m: "timedRow \<in> set [timedRow, untimedRow]" by simp
  have m': "untimedRow \<in> set [timedRow, untimedRow]" by simp
  have h: "hasBar timedRow" by (simp add: hasBar_def timedRow_def)
  have h': "\<not> hasBar untimedRow" by (simp add: hasBar_def untimedRow_def)
  have t: "row.title timedRow = js ''Launch''" "row.entity timedRow = js ''Acme''"
    by (simp_all add: timedRow_def)
  have ne: "row.title timedRow \<noteq> []" "row.entity timedRow \<noteq> []"
    by (simp_all add: timedRow_def js_def)
  have ev: "callGeminiForJson testEnv
              (AnalysisPayload (researchTextCache emptyServer) (JStr (js ''Acme'')) (JStr (js ''Launch'')))
              3 emptyServer
       = (\<lparr>researchTextCache = [], researchFilesCache = [],
           fetches = replicate 3 (AnalysisPayload [] (JStr (js ''Acme'')) (JStr (js ''Launch''))),
           delays = [1000, 2000]\<rparr>, Inr (js ''{}''))"
    by code_simp
  from rows_with_bar_clickable [OF c d m, of Inr testEnv emptyServer] h ne
  have a: "clickListeners (fst (renderRow (length [js ''2025'', js ''2026'']) timedRow))
       = [\<lparr>taskName = js ''Launch'', entity = js ''Acme''\<rparr>]"
    and b: "clickListeners (snd (renderRow (length [js ''2025'', js ''2026'']) timedRow))
       = [\<lparr>taskName = js ''Launch'', entity = js ''Acme''\<rparr>]"
    and s: "showAnalysisModal Inr testEnv \<lparr>taskName = js ''Launch'', entity = js ''Acme''\<rparr> emptyServer
       = (\<lparr>researchTextCache = [], researchFilesCache = [],
           fetches = replicate 3 (AnalysisPayload [] (JStr (js ''Acme'')) (JStr (js ''Launch''))),
           delays = [1000, 2000]\<rparr>, ModalBody (js ''{}''))"
    unfolding t ev by auto
  from rows_with_bar_clickable [OF c d m', of Inr testEnv emptyServer] h'
  have u: "children (snd (renderRow (length [js ''2025'', js ''2026'']) untimedRow))
       = gridCells (length [js ''2025'', js ''2026''])"
    by blast
  from c d m h ne a b s h' u show ?thesis by (simp only: simp_thms)
qed

text \<open>
  Claim C4 as stated fails for a task of unknown timing: its bar has a colour and null
  columns, and neither its label nor its bar area has a click listener; no bar element
  is drawn for it.
\<close>

theorem untimed_task_counterexample:
  "\<not> isSwimlane untimedRow
   \<and> row.bar untimedRow = Some \<lparr>startCol = None, endCol = None, color = Some (js ''priority-red'')\<rparr>
   \<and> data testChart = Some [timedRow, untimedRow]
   \<and> clickListeners (fst (renderRow 2 untimedRow)) = []
   \<and> clickListeners (snd (renderRow 2 untimedRow)) = []
   \<and> children (snd (renderRow 2 untimedRow)) = gridCells 2"
  by (simp add: untimedRow_def testChart_def renderRow_def Let_def)

section \<open>Messages for an empty chart\<close>

lemma emptyData_not_transport:
  "emptyDataMessage \<noteq> js ''Error generating chart data: '' @ m"
  by (simp add: emptyDataMessage_def js_def)

lemma emptyData_not_invalid: "emptyDataMessage \<noteq> invalidStructureMessage"
  by (simp add: emptyDataMessage_def invalidStructureMessage_def js_def)

lemma includesStr_nonempty: "includesStr ct (js ''application/json'') \<Longrightarrow> ct \<noteq> []"
  by (cases ct) (simp_all add: js_def)

text \<open>
  Claim C9, amended. After a successful response whose chart has both \<open>timeColumns\<close> and
  \<open>data\<close>, one of them empty, the page shows the message that the AI found no tasks or
  time columns and asks to check the files or try another prompt. When one of the two
  is missing, it shows "Invalid chart data structure received from server". Both differ
  from what is shown after a failed completion, the server's "Error generating chart
  data: ..." message, and from each other.
\<close>

theorem empty_chart_message:
  assumes "numFiles \<noteq> 0" and "trim promptValue \<noteq> []"
  shows "(ok r \<and> bodyJson r = Inr (Some g) \<and> timeColumns g = Some cols \<and> data g = Some rws
            \<and> (cols = [] \<or> rws = [])
          \<longrightarrow> handleChartGenerate False numFiles promptValue (Inr r)
                = ErrorMessage (js ''Error: '' @ emptyDataMessage))
       \<and> (ok r \<and> bodyJson r = Inr (Some g) \<and> (timeColumns g = None \<or> data g = None)
          \<longrightarrow> handleChartGenerate False numFiles promptValue (Inr r)
                = ErrorMessage (js ''Error: '' @ invalidStructureMessage))
       \<and> (\<not> ok r \<and> contentType r = Some ct \<and> includesStr ct (js ''application/json'')
            \<and> bodyJson r = Inr (Some g)
            \<and> ganttData.error g = Some (js ''Error generating chart data: '' @ m)
          \<longrightarrow> handleChartGenerate False numFiles promptValue (Inr r)
                = ErrorMessage (js ''Error: '' @ js ''Error generating chart data: '' @ m))
       \<and> js ''Error: '' @ emptyDataMessage \<noteq> js ''Error: '' @ js ''Error generating chart data: '' @ m
       \<and> js ''Error: '' @ emptyDataMessage \<noteq> js ''Error: '' @ invalidStructureMessage"
proof -
  have a: "ok r \<and> bodyJson r = Inr (Some g) \<and> timeColumns g = Some cols \<and> data g = Some rws
            \<and> (cols = [] \<or> rws = [])
          \<longrightarrow> handleChartGenerate False numFiles promptValue (Inr r)
                = ErrorMessage (js ''Error: '' @ emptyDataMessage)"
    using assms by (auto simp: handleChartGenerate_def chartOfResponse_def)
  have b: "ok r \<and> bodyJson r = Inr (Some g) \<and> (timeColumns g = None \<or> data g = None)
          \<longrightarrow> handleChartGenerate False numFiles promptValue (Inr r)
                = ErrorMessage (js ''Error: '' @ invalidStructureMessage)"
    using assms by (auto simp: handleChartGenerate_def chartOfResponse_def split: option.splits)
  have c: "\<not> ok r \<and> contentType r = Some ct \<and> includesStr ct (js ''application/json'')
            \<and> bodyJson r = Inr (Some g)
            \<and> ganttData.error g = Some (js ''Error generating chart data: '' @ m)
          \<longrightarrow> handleChartGenerate False numFiles promptValue (Inr r)
                = ErrorMessage (js ''Error: '' @ js ''Error generating chart data: '' @ m)"
    using assms includesStr_nonempty [of ct]
    by (auto simp: handleChartGenerate_def chartOfResponse_def Let_def js_def)
  from a b c emptyData_not_transport [of m] emptyData_not_invalid show ?thesis by simp
qed

theorem empty_chart_message_witness:
  "(1::nat) \<noteq> 0 \<and> trim (js ''plan'') \<noteq> []
   \<and> handleChartGenerate False 1 (js ''plan'') (Inr (chartResponse (testChart\<lparr>data := Some []\<rparr>)))
       = ErrorMessage (js ''Error: '' @ emptyDataMessage)
   \<and> handleChartGenerate False 1 (js ''plan'') (Inr (chartResponse (testChart\<lparr>data := None\<rparr>)))
       = ErrorMessage (js ''Error: '' @ invalidStructureMessage)
   \<and> handleChartGenerate False 1 (js ''plan'')
         (Inr (failedResponse (js ''Error generating chart data: '' @ js ''fetch failed'')))
       = ErrorMessage (js ''Error: '' @ js ''Error generating chart data: '' @ js ''fetch failed'')"
proof -
  have n: "(1::nat) \<noteq> 0" by simp
  have p: "trim (js ''plan'') \<noteq> []" by code_simp
  have i: "includesStr (js ''application/json; charset=utf-8'') (js ''application/json'')"
    by code_simp
  from empty_chart_message [OF n p, of "chartResponse (testChart\<lparr>data := Some []\<rparr>)"
         "testChart\<lparr>data := Some []\<rparr>" "[js ''2025'', js ''2026'']" "[]"]
  have a: "handleChartGenerate False 1 (js ''plan'') (Inr (chartResponse (testChart\<lparr>data := Some []\<rparr>)))
       = ErrorMessage (js ''Error: '' @ emptyDataMessage)"
    by (simp add: chartResponse_def testChart_def)
  from empty_chart_message [OF n p, of "chartResponse (testChart\<lparr>data := None\<rparr>)"
         "testChart\<lparr>data := None\<rparr>"]
  have b: "handleChartGenerate False 1 (js ''plan'') (Inr (chartResponse (testChart\<lparr>data := None\<rparr>)))
       = ErrorMessage (js ''Error: '' @ invalidStructureMessage)"
    by (simp add: chartResponse_def testChart_def)
  from empty_chart_message [OF n p,
         of "failedResponse (js ''Error generating chart data: '' @ js ''fetch failed'')"
            "\<lparr>title = None, timeColumns = None, data = None, legend = None,
              error = Some (js ''Error generating chart data: '' @ js ''fetch failed'')\<rparr>"
            _ _ "js ''application/json; charset=utf-8''" "js ''fetch failed''"] i
  have c: "handleChartGenerate False 1 (js ''plan'')
         (Inr (failedResponse (js ''Error generating chart data: '' @ js ''fetch failed'')))
       = ErrorMessage (js ''Error: '' @ js ''Error generating chart data: '' @ js ''fetch failed'')"
    by (simp add: failedResponse_def)
  from n p a b c show ?thesis by simp
qed

text \<open>
  Claim C9 as stated fails for a chart without \<open>timeColumns\<close>: the message shown is the
  one about an invalid structure, not the one about no tasks found.
\<close>

theorem missing_columns_counterexample:
  "ok (chartResponse (testChart\<lparr>timeColumns := None\<rparr>))
   \<and> bodyJson (chartResponse (testChart\<lparr>timeColumns := None\<rparr>))
       = Inr (Some (testChart\<lparr>timeColumns := None\<rparr>))
   \<and> handleChartGenerate False 1 (js ''plan'')
        (Inr (chartResponse (testChart\<lparr>timeColumns := None\<rparr>)))
       = ErrorMessage (js ''Error: Invalid chart data structure received from server'')
   \<and> handleChartGenerate False 1 (js ''plan'')
        (Inr (chartResponse (testChart\<lparr>timeColumns := None\<rparr>)))
       \<noteq> ErrorMessage (js ''Error: '' @ emptyDataMessage)"
  by code_simp

end
